theory Spec2Isabelle
  imports Main "HOL-Library.AList"
begin

chapter \<open>The server\<close>

section \<open>JavaScript strings\<close>

text \<open>
  A JavaScript string is a sequence of UTF-16 code units; \<open>length\<close>, \<open>substring\<close>,
  \<open>includes\<close>, \<open>split\<close> and the regular expressions of the server all count code units.
  A string is therefore a list of code units (natural numbers), and an ASCII literal of
  the source is written \<open>js ''...''\<close>. The few literals of the source that leave ASCII
  (the pictographs in front of some output lines) are written as their code units.
\<close>

type_synonym jsstring = "nat list"

abbreviation js :: "string \<Rightarrow> jsstring" where
  "js s \<equiv> map of_char s"

text \<open>
  \<open>\s\<close> in a regular expression and the characters \<open>trim\<close> strips are the same set:
  ECMAScript's WhiteSpace and LineTerminator code points.
\<close>

definition is_ws :: "nat \<Rightarrow> bool" where
  "is_ws c = (c \<in> set [9, 10, 11, 12, 13, 32, 160, 5760, 8232, 8233, 8239, 8287, 12288, 65279]
     \<or> (8192 \<le> c \<and> c \<le> 8202))"

definition js_trim :: "jsstring \<Rightarrow> jsstring" where
  "js_trim s = rev (dropWhile is_ws (rev (dropWhile is_ws s)))"

text \<open>\<open>s.includes(sub)\<close>: \<open>sub\<close> occurs in \<open>s\<close> as a contiguous run.\<close>

fun js_includes :: "jsstring \<Rightarrow> jsstring \<Rightarrow> bool" where
  "js_includes [] sub = (sub = [])"
| "js_includes (x # t) sub = (take (length sub) (x # t) = sub \<or> js_includes t sub)"

text \<open>\<open>s.split(sep)\<close> for a separator of one code unit.\<close>

fun js_split :: "nat \<Rightarrow> jsstring \<Rightarrow> jsstring list" where
  "js_split sep [] = [[]]"
| "js_split sep (x # t) =
     (if x = sep then [] # js_split sep t
      else (case js_split sep t of [] \<Rightarrow> [[x]] | l # ls \<Rightarrow> (x # l) # ls))"

text \<open>\<open>lines.join(sep)\<close>.\<close>

fun js_join :: "jsstring \<Rightarrow> jsstring list \<Rightarrow> jsstring" where
  "js_join sep [] = []"
| "js_join sep [l] = l"
| "js_join sep (l # ls) = l @ sep @ js_join sep ls"

text \<open>
  \<open>toLowerCase\<close> on the letters A to Z. Every keyword the server looks for in a
  lower-cased text is ASCII, and a code unit outside ASCII is kept as it is.
\<close>

definition lower :: "nat \<Rightarrow> nat" where
  "lower c = (if 65 \<le> c \<and> c \<le> 90 then c + 32 else c)"

definition toLowerCase :: "jsstring \<Rightarrow> jsstring" where
  "toLowerCase s = map lower s"

text \<open>Truthiness of a string value: the empty string is falsy.\<close>

definition truthy :: "jsstring \<Rightarrow> bool" where
  "truthy s = (s \<noteq> [])"

section \<open>Regular expressions\<close>

text \<open>
  The regular expressions of the server, as syntax trees, with the backtracking matcher of
  the ECMAScript specification: a matcher takes the continuation that matches the rest of
  the pattern, and tries its alternatives in priority order. A match state is the input
  still to read and the captures so far. A starred pattern that matches the empty string
  in one iteration fails that iteration, as the specification says, so the number of
  iterations is at most the length of the input left.
\<close>

type_synonym captures = "nat \<Rightarrow> jsstring option"

type_synonym mstate = "jsstring \<times> captures"

type_synonym cont = "mstate \<Rightarrow> mstate option"

datatype rx =
    Atom "nat \<Rightarrow> bool"
  | Eps
  | Seq rx rx
  | Alt rx rx
  | Opt rx
  | Star rx
  | LazyStar rx
  | Cap nat rx

primrec star_greedy :: "(cont \<Rightarrow> cont) \<Rightarrow> cont \<Rightarrow> nat \<Rightarrow> cont" where
  "star_greedy f k 0 = k"
| "star_greedy f k (Suc n) = (\<lambda>st.
     case f (\<lambda>st'. if length (fst st') < length (fst st) then star_greedy f k n st' else None) st of
       Some r \<Rightarrow> Some r
     | None \<Rightarrow> k st)"

primrec star_lazy :: "(cont \<Rightarrow> cont) \<Rightarrow> cont \<Rightarrow> nat \<Rightarrow> cont" where
  "star_lazy f k 0 = k"
| "star_lazy f k (Suc n) = (\<lambda>st.
     case k st of
       Some r \<Rightarrow> Some r
     | None \<Rightarrow> f (\<lambda>st'. if length (fst st') < length (fst st) then star_lazy f k n st' else None) st)"

primrec rx_m :: "rx \<Rightarrow> cont \<Rightarrow> cont" where
  "rx_m (Atom p) k = (\<lambda>st. case fst st of [] \<Rightarrow> None | x # t \<Rightarrow> if p x then k (t, snd st) else None)"
| "rx_m Eps k = k"
| "rx_m (Seq a b) k = rx_m a (rx_m b k)"
| "rx_m (Alt a b) k = (\<lambda>st. case rx_m a k st of Some r \<Rightarrow> Some r | None \<Rightarrow> rx_m b k st)"
| "rx_m (Opt a) k = (\<lambda>st. case rx_m a k st of Some r \<Rightarrow> Some r | None \<Rightarrow> k st)"
| "rx_m (Star a) k = (\<lambda>st. star_greedy (rx_m a) k (length (fst st)) st)"
| "rx_m (LazyStar a) k = (\<lambda>st. star_lazy (rx_m a) k (length (fst st)) st)"
| "rx_m (Cap i a) k = (\<lambda>st. rx_m a (\<lambda>st'.
       k (fst st', (snd st')(i := Some (take (length (fst st) - length (fst st')) (fst st))))) st)"

definition Plus :: "rx \<Rightarrow> rx" where
  "Plus a = Seq a (Star a)"

definition LazyPlus :: "rx \<Rightarrow> rx" where
  "LazyPlus a = Seq a (LazyStar a)"

text \<open>
  The flag \<open>i\<close>: a pattern character matches a code unit with the same canonical (upper
  case) form. Every pattern character of the server is ASCII; a code unit outside ASCII
  never canonicalises to an ASCII one, so only the letters a to z are mapped.
\<close>

definition canon :: "nat \<Rightarrow> nat" where
  "canon c = (if 97 \<le> c \<and> c \<le> 122 then c - 32 else c)"

definition ci :: "nat \<Rightarrow> nat \<Rightarrow> bool" where
  "ci p x = (canon x = canon p)"

definition lit :: "string \<Rightarrow> rx" where
  "lit s = foldr (\<lambda>c r. Seq (Atom (ci (of_char c))) r) s Eps"

text \<open>
  A match attempt at the start of \<open>s\<close>, and the search of \<open>exec\<close> and \<open>match\<close>: the
  leftmost start position with a match wins. The result is the input left after the match
  and the captures.
\<close>

definition rx_at :: "rx \<Rightarrow> jsstring \<Rightarrow> mstate option" where
  "rx_at r s = rx_m r Some (s, \<lambda>_. None)"

fun rx_search :: "rx \<Rightarrow> jsstring \<Rightarrow> mstate option" where
  "rx_search r [] = rx_at r []"
| "rx_search r (x # t) =
     (case rx_at r (x # t) of Some st \<Rightarrow> Some st | None \<Rightarrow> rx_search r t)"

section \<open>OutputSignalExtractor: extractAuthUrl and determineStage\<close>

text \<open>
  The character class \<open>[^\s\n]\<close>, the captured URL
  \<open>(https:\/\/partners\.shopify\.com\/[^\s\n]+)\<close>, and the five patterns
  \<open>/<phrase>\s*(https:\/\/partners\.shopify\.com\/[^\s\n]+)/i\<close>.
\<close>

definition non_space :: "nat \<Rightarrow> bool" where
  "non_space c = (\<not> is_ws c \<and> c \<noteq> 10)"

definition partners_url :: rx where
  "partners_url = Cap 1 (Seq (lit ''https://partners.shopify.com/'') (Plus (Atom non_space)))"

definition phrase_pattern :: "string \<Rightarrow> rx" where
  "phrase_pattern p = Seq (lit p) (Seq (Star (Atom is_ws)) partners_url)"

text \<open>The last pattern, \<open>/(https:\/\/partners\.shopify\.com\/[^\s\n]*auth[^\s\n]*)/i\<close>.\<close>

definition auth_link_pattern :: rx where
  "auth_link_pattern =
     Cap 1 (Seq (lit ''https://partners.shopify.com/'')
       (Seq (Star (Atom non_space)) (Seq (lit ''auth'') (Star (Atom non_space)))))"

definition patterns :: "rx list" where
  "patterns =
     [phrase_pattern ''To create your app, visit:'',
      phrase_pattern ''Please visit the following URL to authenticate:'',
      phrase_pattern ''Visit this URL to authenticate:'',
      phrase_pattern ''Authentication URL:'',
      phrase_pattern ''Open this link:'',
      auth_link_pattern]"

text \<open>
  \<open>for (const pattern of patterns) { const match = output.match(pattern);
  if (match) return match[1]; } return null\<close>. Group 1 takes part in every match of
  every pattern, so \<open>match[1]\<close> is a string.
\<close>

fun first_match :: "rx list \<Rightarrow> jsstring \<Rightarrow> jsstring option" where
  "first_match [] output = None"
| "first_match (p # ps) output =
     (case rx_search p output of
        Some st \<Rightarrow> snd st 1
      | None \<Rightarrow> first_match ps output)"

definition extractAuthUrl :: "jsstring \<Rightarrow> jsstring option" where
  "extractAuthUrl output = first_match patterns output"

definition determineStage :: "jsstring \<Rightarrow> jsstring" where
  "determineStage output =
     (let lowerOutput = toLowerCase output in
      if js_includes lowerOutput (js ''creating app'') \<or> js_includes lowerOutput (js ''setting up'')
         \<or> js_includes lowerOutput (js ''initializing'') then js ''creating''
      else if js_includes lowerOutput (js ''authentication'') \<or> js_includes lowerOutput (js ''auth'')
         \<or> js_includes lowerOutput (js ''visit'') \<or> js_includes lowerOutput (js ''partners.shopify.com'')
      then js ''waiting_auth''
      else if js_includes lowerOutput (js ''authenticating'') \<or> js_includes lowerOutput (js ''completing'')
      then js ''authenticating''
      else if js_includes lowerOutput (js ''finalizing'') \<or> js_includes lowerOutput (js ''finishing'')
         \<or> js_includes lowerOutput (js ''installing dependencies'') then js ''finalizing''
      else if js_includes lowerOutput (js ''success'') \<or> js_includes lowerOutput (js ''completed'')
         \<or> js_includes lowerOutput (js ''done'') then js ''completed''
      else js ''creating'')"

section \<open>Values, errors and the clock\<close>

text \<open>
  The values the job records hold. \<open>ServerTs\<close> is the sentinel
  \<open>admin.firestore.FieldValue.serverTimestamp()\<close>. An object is a finite map from its
  property names to values; a property that is absent reads as \<open>undefined\<close>.
\<close>

datatype jsval =
    Undefined
  | Null
  | Bool bool
  | Str jsstring
  | Lines "jsstring list"
  | Obj "(string \<times> jsval) list"
  | ServerTs

type_synonym jsobj = "string \<rightharpoonup> jsval"

definition get_field :: "jsobj \<Rightarrow> string \<Rightarrow> jsval" where
  "get_field obj k = (case obj k of None \<Rightarrow> Undefined | Some v \<Rightarrow> v)"

text \<open>Truthiness of a value: objects and arrays are truthy, also when empty.\<close>

fun truthy_val :: "jsval \<Rightarrow> bool" where
  "truthy_val Undefined = False"
| "truthy_val Null = False"
| "truthy_val (Bool b) = b"
| "truthy_val (Str s) = truthy s"
| "truthy_val (Lines ls) = True"
| "truthy_val (Obj kvs) = True"
| "truthy_val ServerTs = True"

text \<open>
  A thrown exception (a rejected promise, for an asynchronous function) is the left
  summand of the result, with its message; \<open>try { body } catch (e) { handler }\<close> is
  \<open>try_catch body handler\<close>.
\<close>

datatype error = Error jsstring

definition try_catch :: "error + 'a \<Rightarrow> (error \<Rightarrow> error + 'a) \<Rightarrow> error + 'a" where
  "try_catch body handler = (case body of Inl e \<Rightarrow> handler e | Inr v \<Rightarrow> Inr v)"

text \<open>
  What a call reads from the outside world: \<open>Date.now()\<close>, the string
  \<open>Math.random().toString(36)\<close> and \<open>new Date().toISOString()\<close>.
\<close>

record clock =
  date_now :: int
  random36 :: jsstring
  iso_now :: jsstring

definition digit_char :: "nat \<Rightarrow> nat" where
  "digit_char d = (if d < 10 then 48 + d else 87 + d)"

function digits :: "nat \<Rightarrow> nat \<Rightarrow> jsstring" where
  "digits b n = (if b < 2 \<or> n < b then [digit_char n] else digits b (n div b) @ [digit_char (n mod b)])"
  by pat_completeness auto
termination
  by (relation "measure (\<lambda>(b, n). n)") auto

text \<open>\<open>i.toString(b)\<close> for an integer \<open>i\<close>.\<close>

definition toString :: "nat \<Rightarrow> int \<Rightarrow> jsstring" where
  "toString b i = (if i < 0 then 45 # digits b (nat (- i)) else digits b (nat i))"

text \<open>\<open>Date.now().toString(36) + Math.random().toString(36).substr(2, 5)\<close>\<close>

definition generateProjectId :: "clock \<Rightarrow> jsstring" where
  "generateProjectId c = toString 36 (date_now c) @ take 5 (drop 2 (random36 c))"

text \<open>\<open>`job_${Date.now()}_${Math.random().toString(36).substr(2, 9)}`\<close>\<close>

definition generateJobId :: "clock \<Rightarrow> jsstring" where
  "generateJobId c = js ''job_'' @ toString 10 (date_now c) @ js ''_'' @ take 9 (drop 2 (random36 c))"

section \<open>JobStore\<close>

text \<open>
  The durable backend, at its interface: two collections of documents keyed by id. A
  write replaces each \<open>ServerTs\<close> by the server's time; a stored timestamp is
  represented by the ISO string that \<open>toDate().toISOString()\<close> gives for it, so the
  conversion in \<open>getAppCreationJob\<close> leaves it as it is. While \<open>fs_failing\<close> holds every
  call rejects. \<open>update\<close> of a document that does not exist rejects.
\<close>

record firestore =
  app_creation_jobs :: "jsstring \<rightharpoonup> jsobj"
  user_shopify_apps :: "jsstring \<rightharpoonup> jsobj"
  fs_failing :: bool
  fs_clock :: jsstring

definition stamp :: "jsstring \<Rightarrow> jsobj \<Rightarrow> jsobj" where
  "stamp t data = (\<lambda>k. case data k of Some ServerTs \<Rightarrow> Some (Str t) | v \<Rightarrow> v)"

definition jobs_set :: "firestore \<Rightarrow> jsstring \<Rightarrow> jsobj \<Rightarrow> error + firestore" where
  "jobs_set f docId data =
     (if fs_failing f then Inl (Error (js ''UNAVAILABLE''))
      else Inr (f\<lparr>app_creation_jobs := (app_creation_jobs f)(docId \<mapsto> stamp (fs_clock f) data)\<rparr>))"

definition jobs_update :: "firestore \<Rightarrow> jsstring \<Rightarrow> jsobj \<Rightarrow> error + firestore" where
  "jobs_update f docId data =
     (if fs_failing f then Inl (Error (js ''UNAVAILABLE''))
      else (case app_creation_jobs f docId of
              None \<Rightarrow> Inl (Error (js ''NOT_FOUND''))
            | Some old \<Rightarrow>
                Inr (f\<lparr>app_creation_jobs :=
                  (app_creation_jobs f)(docId \<mapsto> old ++ stamp (fs_clock f) data)\<rparr>)))"

definition jobs_get :: "firestore \<Rightarrow> jsstring \<Rightarrow> error + jsobj option" where
  "jobs_get f docId =
     (if fs_failing f then Inl (Error (js ''UNAVAILABLE'')) else Inr (app_creation_jobs f docId))"

definition apps_set :: "firestore \<Rightarrow> jsstring \<Rightarrow> jsobj \<Rightarrow> error + firestore" where
  "apps_set f docId data =
     (if fs_failing f then Inl (Error (js ''UNAVAILABLE''))
      else Inr (f\<lparr>user_shopify_apps := (user_shopify_apps f)(docId \<mapsto> stamp (fs_clock f) data)\<rparr>))"

text \<open>
  The state of the server process: \<open>db\<close> is what \<open>getFirestore()\<close> returns (\<open>None\<close>
  when the Admin SDK is not initialised), \<open>inMemoryJobs\<close> and \<open>activeJobs\<close> are the two
  module-level maps. Of an \<open>activeJobs\<close> entry only the presence is ever read by the
  functions below; the entry keeps the owner and the application name.
\<close>

record server =
  db :: "firestore option"
  inMemoryJobs :: "jsstring \<rightharpoonup> jsobj"
  activeJobs :: "jsstring \<rightharpoonup> (jsstring \<times> jsstring)"

definition jobData0 :: "jsstring \<Rightarrow> jsstring \<Rightarrow> jsstring \<Rightarrow> jsstring \<Rightarrow> jsobj" where
  "jobData0 jobId userId appName now =
     [''jobId'' \<mapsto> Str jobId, ''userId'' \<mapsto> Str userId, ''appName'' \<mapsto> Str appName,
      ''status'' \<mapsto> Str (js ''running''), ''stage'' \<mapsto> Str (js ''initializing''),
      ''createdAt'' \<mapsto> Str now, ''updatedAt'' \<mapsto> Str now,
      ''output'' \<mapsto> Lines [], ''authUrl'' \<mapsto> Null, ''error'' \<mapsto> Null,
      ''sandboxId'' \<mapsto> Null, ''appData'' \<mapsto> Null]"

text \<open>
  \<open>createAppCreationJob(userId, appName)\<close> returns \<open>{ jobId, status: 'running' }\<close>; the
  model returns the job id and the new state. The outer handler rethrows as
  "Failed to create app creation job".
\<close>

definition createAppCreationJob ::
  "server \<Rightarrow> clock \<Rightarrow> jsstring \<Rightarrow> jsstring \<Rightarrow> error + (jsstring \<times> server)" where
  "createAppCreationJob s c userId appName =
     try_catch
       (let jobId = generateJobId c;
            jobData = jobData0 jobId userId appName (iso_now c) in
        case db s of
          None \<Rightarrow> Inr (jobId, s\<lparr>inMemoryJobs := (inMemoryJobs s)(jobId \<mapsto> jobData)\<rparr>)
        | Some f \<Rightarrow>
            try_catch
              (case jobs_set f jobId (jobData(''createdAt'' \<mapsto> ServerTs, ''updatedAt'' \<mapsto> ServerTs)) of
                 Inl e \<Rightarrow> Inl e
               | Inr f' \<Rightarrow> Inr (jobId, s\<lparr>db := Some f'\<rparr>))
              (\<lambda>firestoreError.
                 Inr (jobId, s\<lparr>inMemoryJobs := (inMemoryJobs s)(jobId \<mapsto> jobData)\<rparr>)))
       (\<lambda>error. Inl (Error (js ''Failed to create app creation job'')))"

text \<open>
  \<open>updateAppCreationJob(jobId, updates)\<close>. The shallow merge
  \<open>{ ...existingJob, ...updates, updatedAt: new Date().toISOString() }\<close> is
  \<open>existingJob ++ updates(updatedAt \<mapsto> now)\<close>. Without Firestore and without an in-memory
  record, \<open>firestore.collection\<close> throws a TypeError inside the inner \<open>try\<close>.
\<close>

definition merge_job :: "jsobj \<Rightarrow> jsobj \<Rightarrow> jsstring \<Rightarrow> jsobj" where
  "merge_job existingJob updates now = existingJob ++ updates(''updatedAt'' \<mapsto> Str now)"

definition updateAppCreationJob ::
  "server \<Rightarrow> clock \<Rightarrow> jsstring \<Rightarrow> jsobj \<Rightarrow> error + server" where
  "updateAppCreationJob s c jobId updates =
     try_catch
       (case (if db s = None \<or> inMemoryJobs s jobId \<noteq> None then inMemoryJobs s jobId else None) of
          Some existingJob \<Rightarrow>
            Inr (s\<lparr>inMemoryJobs := (inMemoryJobs s)(jobId \<mapsto> merge_job existingJob updates (iso_now c))\<rparr>)
        | None \<Rightarrow>
            try_catch
              (case db s of
                 None \<Rightarrow> Inl (Error (js ''TypeError''))
               | Some f \<Rightarrow>
                   (case jobs_update f jobId (updates(''updatedAt'' \<mapsto> ServerTs)) of
                      Inl e \<Rightarrow> Inl e
                    | Inr f' \<Rightarrow> Inr (s\<lparr>db := Some f'\<rparr>)))
              (\<lambda>firestoreError.
                 case inMemoryJobs s jobId of
                   Some existingJob \<Rightarrow>
                     Inr (s\<lparr>inMemoryJobs :=
                       (inMemoryJobs s)(jobId \<mapsto> merge_job existingJob updates (iso_now c))\<rparr>)
                 | None \<Rightarrow> Inr s))
       (\<lambda>error. Inr s)"

text \<open>\<open>getAppCreationJob(jobId)\<close>; \<open>None\<close> is the \<open>null\<close> it returns for a job it does not find.\<close>

definition getAppCreationJob :: "server \<Rightarrow> jsstring \<Rightarrow> error + jsobj option" where
  "getAppCreationJob s jobId =
     try_catch
       (case inMemoryJobs s jobId of
          Some job \<Rightarrow> Inr (Some job)
        | None \<Rightarrow>
            (case db s of
               None \<Rightarrow> Inr None
             | Some f \<Rightarrow>
                 try_catch
                   (case jobs_get f jobId of
                      Inl e \<Rightarrow> Inl e
                    | Inr None \<Rightarrow> Inr None
                    | Inr (Some jobData) \<Rightarrow> Inr (Some jobData))
                   (\<lambda>firestoreError. Inr None)))
       (\<lambda>error. Inr None)"

text \<open>The durable backend is unavailable (not configured) or failing.\<close>

definition durable_down :: "server \<Rightarrow> bool" where
  "durable_down s = (case db s of None \<Rightarrow> True | Some f \<Rightarrow> fs_failing f)"

section \<open>SandboxProcessMonitor\<close>

text \<open>
  \<open>saveShopifyAppMetadata(userId, appData)\<close>, with the object the monitor passes for
  \<open>appData\<close> and the document it stores. It returns \<open>undefined\<close> when Firestore is
  not configured, the stored object when the write succeeds, and throws
  "Failed to save app metadata" when the write fails.
\<close>

record app_info =
  name :: jsstring
  cliPath :: jsstring
  projectPath :: jsstring
  authCompleted :: bool

definition appMetadata :: "jsstring \<Rightarrow> jsstring \<Rightarrow> app_info \<Rightarrow> (string \<times> jsval) list" where
  "appMetadata appId userId appData =
     [(''appId'', Str appId), (''userId'', Str userId), (''name'', Str (name appData)),
      (''description'', Str (js ''Shopify app created with CLI: '' @ name appData)),
      (''type'', Str (js ''shopify-cli-app'')), (''template'', Str (js ''typescript-react'')),
      (''createdAt'', ServerTs), (''updatedAt'', ServerTs), (''status'', Str (js ''active'')),
      (''cliPath'', if truthy (cliPath appData) then Str (cliPath appData) else Null),
      (''projectPath'', if truthy (projectPath appData) then Str (projectPath appData) else Null),
      (''authCompleted'', Bool (authCompleted appData))]"

definition saveShopifyAppMetadata ::
  "server \<Rightarrow> clock \<Rightarrow> jsstring \<Rightarrow> app_info \<Rightarrow> error + (jsval \<times> server)" where
  "saveShopifyAppMetadata s c userId appData =
     try_catch
       (case db s of
          None \<Rightarrow> Inr (Undefined, s)
        | Some f \<Rightarrow>
            (let appId = generateProjectId c in
             case apps_set f appId (map_of (appMetadata appId userId appData)) of
               Inl e \<Rightarrow> Inl e
             | Inr f' \<Rightarrow> Inr (Obj (appMetadata appId userId appData), s\<lparr>db := Some f'\<rparr>)))
       (\<lambda>error. Inl (Error (js ''Failed to save app metadata'')))"

text \<open>
  The result of one \<open>sandbox.commands.run\<close>, and what one poll tick observes: the result
  of each command the tick may run (a command can reject) and the clock.
\<close>

record cmd =
  stdout :: jsstring
  stderr :: jsstring

record observation =
  processCheck :: "error + cmd"
  logRead :: "error + cmd"
  outputCheck :: "error + cmd"
  appDirCheck :: "error + cmd"
  filesCheck :: "error + cmd"
  authCheck :: "error + cmd"
  at :: clock

text \<open>
  The variables of \<open>monitorShopifyCliProcess\<close> that its two timer callbacks share;
  \<open>pollInterval\<close> holds while the interval timer is live (\<open>clearInterval\<close> ends it).
\<close>

record monitor =
  outputBuffer :: "jsstring list"
  authUrl :: "jsstring option"
  isWaitingForAuth :: bool
  isProcessComplete :: bool
  pollInterval :: bool

definition monitor0 :: "jsstring \<Rightarrow> monitor" where
  "monitor0 appName =
     \<lparr>outputBuffer = [js ''E2B sandbox created successfully'', js ''Initializing Shopify CLI...'',
        js ''Running shopify app init '' @ [34] @ appName @ [34] @ js ''...''],
      authUrl = None, isWaitingForAuth = False, isProcessComplete = False, pollInterval = True\<rparr>"

text \<open>\<open>!authUrl\<close>: the variable is \<open>null\<close> or the empty string.\<close>

definition no_url :: "jsstring option \<Rightarrow> bool" where
  "no_url a = (case a of None \<Rightarrow> True | Some u \<Rightarrow> \<not> truthy u)"

definition partners_portal :: jsstring where
  "partners_portal = js ''https://partners.shopify.com/''"

text \<open>
  The lines of the log that are not in the buffer yet: of every non-blank line, trimmed,
  the first 50 code units must not occur in any line of the buffer. The buffer is not
  extended while the lines are compared.
\<close>

definition already_buffered :: "jsstring list \<Rightarrow> jsstring \<Rightarrow> bool" where
  "already_buffered buf trimmedLine = list_ex (\<lambda>existing. js_includes existing (take 50 trimmedLine)) buf"

definition newOutputLines :: "jsstring list \<Rightarrow> jsstring \<Rightarrow> jsstring list" where
  "newOutputLines buf currentOutput =
     filter (\<lambda>trimmedLine. truthy trimmedLine \<and> \<not> already_buffered buf trimmedLine)
       (map js_trim (filter (\<lambda>line. truthy (js_trim line)) (js_split 10 currentOutput)))"

definition link_line :: "jsstring \<Rightarrow> jsstring" where
  "link_line url = [55357, 56599] @ js '' Authentication required: '' @ url"

text \<open>
  Reading the log: the new lines and, while no URL is known, the URL search over the
  whole log.
\<close>

definition read_log :: "monitor \<Rightarrow> cmd \<Rightarrow> monitor \<times> jsstring list" where
  "read_log m res =
     (if truthy (stdout res) \<and> truthy (js_trim (stdout res)) then
        (let currentOutput = stdout res;
             new = newOutputLines (outputBuffer m) currentOutput in
         if no_url (authUrl m) then
           (case extractAuthUrl currentOutput of
              None \<Rightarrow> (m, new)
            | Some foundAuthUrl \<Rightarrow>
                if truthy foundAuthUrl
                then (m\<lparr>authUrl := Some foundAuthUrl, isWaitingForAuth := True\<rparr>,
                      new @ [link_line foundAuthUrl])
                else (m, new))
         else (m, new))
      else (m, []))"

text \<open>
  The one-shot foreground run of the command when the process has stopped and no URL is
  known; its own \<open>try\<close> swallows a rejection.
\<close>

definition auth_check :: "monitor \<Rightarrow> error + cmd \<Rightarrow> monitor" where
  "auth_check m r =
     (case r of
        Inl authError \<Rightarrow> m
      | Inr res \<Rightarrow>
          if truthy (stdout res) \<or> truthy (stderr res) then
            (let fullOutput = stdout res @ stderr res in
             case (case extractAuthUrl fullOutput of
                     None \<Rightarrow> None
                   | Some u \<Rightarrow> if truthy u then Some u else None) of
               Some foundAuthUrl \<Rightarrow> m\<lparr>authUrl := Some foundAuthUrl, isWaitingForAuth := True\<rparr>
             | None \<Rightarrow>
                 if js_includes fullOutput (js ''Authentication'') \<or> js_includes fullOutput (js ''login'')
                    \<or> js_includes fullOutput (js ''auth'')
                 then m\<lparr>authUrl := Some partners_portal, isWaitingForAuth := True\<rparr>
                 else m)
          else m)"

text \<open>
  The completion markers: the listing of the project directory names \<open>package.json\<close>
  and \<open>app\<close>.
\<close>

definition has_markers :: "cmd \<Rightarrow> bool" where
  "has_markers files =
     (truthy (stdout files) \<and> js_includes (stdout files) (js ''package.json'')
      \<and> js_includes (stdout files) (js ''app''))"

text \<open>
  The filesystem probe. A rejected command leaves for the handler of the enclosing
  \<open>try\<close>; no variable has been assigned by the probe at any point where it can reject.
\<close>

definition probe :: "monitor \<Rightarrow> bool \<Rightarrow> observation \<Rightarrow> error + monitor" where
  "probe m isProcessRunning obs =
     (case outputCheck obs of
        Inl e \<Rightarrow> Inl e
      | Inr dirs \<Rightarrow>
          (case appDirCheck obs of
             Inl e \<Rightarrow> Inl e
           | Inr appDir \<Rightarrow>
               if truthy (stdout appDir) \<and> \<not> js_includes (stdout appDir) (js ''no app dir yet'') then
                 (case filesCheck obs of
                    Inl e \<Rightarrow> Inl e
                  | Inr files \<Rightarrow>
                      if has_markers files then Inr (m\<lparr>isProcessComplete := True\<rparr>) else Inr m)
               else if \<not> isProcessRunning \<and> no_url (authUrl m) then
                 Inr (auth_check m (authCheck obs))
               else Inr m))"

text \<open>The inner \<open>try\<close> of a tick: its handler only logs, and what was assigned stays.\<close>

definition gather :: "monitor \<Rightarrow> bool \<Rightarrow> observation \<Rightarrow> monitor \<times> jsstring list" where
  "gather m isProcessRunning obs =
     (case logRead obs of
        Inl outputError \<Rightarrow> (m, [])
      | Inr res \<Rightarrow>
          (let (m1, new) = read_log m res in
           case probe m1 isProcessRunning obs of
             Inl outputError \<Rightarrow> (m1, new)
           | Inr m2 \<Rightarrow> (m2, new)))"

definition success_lines :: "jsstring list" where
  "success_lines =
     [[9989] @ js '' Shopify app created successfully!'',
      [55357, 56513] @ js '' Project files have been generated'',
      [55356, 57225] @ js '' Setup complete!'']"

definition paused_line :: jsstring where
  "paused_line = [9208, 65039] @ js ''  CLI process paused - may require authentication''"

text \<open>
  The second half of a tick: the update it writes. \<open>updateData.output\<close> is the buffer
  array itself, so the update carries the buffer as it is when the update is called.
\<close>

definition conclude ::
  "jsstring \<Rightarrow> jsstring \<Rightarrow> jsstring \<Rightarrow> clock \<Rightarrow> bool \<Rightarrow> server \<Rightarrow> monitor
     \<Rightarrow> server \<times> monitor \<times> jsobj" where
  "conclude jobId userId appName c isProcessRunning s m =
     (if isProcessComplete m then
        (let m' = m\<lparr>outputBuffer := outputBuffer m @ success_lines\<rparr>;
             saved = saveShopifyAppMetadata s c userId
               \<lparr>name = appName, cliPath = js ''/tmp/'' @ appName, projectPath = js ''/tmp/'' @ appName,
                authCompleted = (\<not> isWaitingForAuth m' \<or> authUrl m' \<noteq> None)\<rparr>;
             (s', updateData) =
               (case saved of
                  Inr (appData, s1) \<Rightarrow>
                    (s1, [''stage'' \<mapsto> Str (js ''completed''), ''status'' \<mapsto> Str (js ''completed''),
                          ''appData'' \<mapsto> appData, ''output'' \<mapsto> Lines (outputBuffer m')])
                | Inl saveError \<Rightarrow> (s, [''output'' \<mapsto> Lines (outputBuffer m')]))
         in (s'\<lparr>activeJobs := (activeJobs s')(jobId := None)\<rparr>, m'\<lparr>pollInterval := False\<rparr>, updateData))
      else if \<not> no_url (authUrl m) \<and> isWaitingForAuth m then
        (s, m, [''output'' \<mapsto> Lines (outputBuffer m), ''authUrl'' \<mapsto> Str (the (authUrl m)),
                ''stage'' \<mapsto> Str (js ''waiting_auth'')])
      else if \<not> isProcessRunning \<and> length (outputBuffer m) > 3 then
        (let lastOutput = last (outputBuffer m) in
         if js_includes lastOutput (js ''success'') \<or> js_includes lastOutput (js ''complete'') then
           (s, m\<lparr>isProcessComplete := True\<rparr>,
            [''output'' \<mapsto> Lines (outputBuffer m), ''stage'' \<mapsto> Str (js ''completed'')])
         else
           (let m' = m\<lparr>outputBuffer := outputBuffer m @ [paused_line]\<rparr> in
            if no_url (authUrl m')
            then (s, m'\<lparr>authUrl := Some partners_portal\<rparr>,
                  [''output'' \<mapsto> Lines (outputBuffer m'), ''authUrl'' \<mapsto> Str partners_portal,
                   ''stage'' \<mapsto> Str (js ''waiting_auth'')])
            else (s, m', [''output'' \<mapsto> Lines (outputBuffer m'),
                   ''stage'' \<mapsto> Str (js ''waiting_auth'')])))
      else
        (s, m, [''output'' \<mapsto> Lines (outputBuffer m),
                ''stage'' \<mapsto> Str (determineStage (js_join (js '' '') (outputBuffer m)))]))"

text \<open>
  One run of the interval callback. It returns the new state of the server and of the
  monitor, and the updates it has passed to \<open>updateAppCreationJob\<close>, in order. A
  rejected process check leaves through the outer handler, which only logs.
\<close>

definition tick ::
  "jsstring \<Rightarrow> jsstring \<Rightarrow> jsstring \<Rightarrow> observation \<Rightarrow> server \<times> monitor
     \<Rightarrow> server \<times> monitor \<times> jsobj list" where
  "tick jobId userId appName obs sm =
     (let (s, m) = sm in
      if activeJobs s jobId = None \<or> isProcessComplete m then (s, m\<lparr>pollInterval := False\<rparr>, [])
      else
        (case processCheck obs of
           Inl pollError \<Rightarrow> (s, m, [])
         | Inr res \<Rightarrow>
             (let isProcessRunning = (truthy (stdout res) \<and> js_includes (stdout res) (js ''shopify''));
                  (m1, new) = gather m isProcessRunning obs;
                  m2 = m1\<lparr>outputBuffer := outputBuffer m1 @ new\<rparr>;
                  (s3, m3, updateData) = conclude jobId userId appName (at obs) isProcessRunning s m2
              in case updateAppCreationJob s3 (at obs) jobId updateData of
                   Inl pollError \<Rightarrow> (s3, m3, [updateData])
                 | Inr s4 \<Rightarrow> (s4, m3, [updateData]))))"






subsection \<open>Invariants of the authentication URL\<close>

text \<open>
  The variable \<open>authUrl\<close> is \<open>null\<close> or a non-empty string: every assignment is
  behind a truthiness test of the value found, or assigns the partner portal's address.
\<close>

definition auth_inv :: "monitor \<Rightarrow> bool" where
  "auth_inv m = (case authUrl m of None \<Rightarrow> True | Some u \<Rightarrow> truthy u)"





subsection \<open>Concrete states and observations\<close>

text \<open>
  A server without Firestore, two readings of the clock, and two ticks whose logs name
  different URLs.
\<close>

definition clock0 :: clock where
  "clock0 = \<lparr>date_now = 1700000000000, random36 = js ''0.4fzyo82mvyr'', iso_now = js ''2023-11-14T22:13:20.000Z''\<rparr>"

definition clock1 :: clock where
  "clock1 = \<lparr>date_now = 1700000008000, random36 = js ''0.9x1c3k7p2q'', iso_now = js ''2023-11-14T22:13:28.000Z''\<rparr>"

definition server_down :: server where
  "server_down = \<lparr>db = None, inMemoryJobs = Map.empty, activeJobs = Map.empty\<rparr>"

definition quiet :: cmd where
  "quiet = \<lparr>stdout = [], stderr = []\<rparr>"



definition server_job :: server where
  "server_job =
     \<lparr>db = None,
      inMemoryJobs = [js ''job_1'' \<mapsto> jobData0 (js ''job_1'') (js ''user_1'') (js ''My App'') (iso_now clock0)],
      activeJobs = [js ''job_1'' \<mapsto> (js ''user_1'', js ''My App'')]\<rparr>"

subsection \<open>The lines a tick adds\<close>










subsection \<open>Completion markers and the failing save\<close>

text \<open>The probe ran and found the project directory with the completion markers.\<close>

definition markers_found :: "observation \<Rightarrow> bool" where
  "markers_found obs =
     (case (logRead obs, outputCheck obs, appDirCheck obs, filesCheck obs) of
        (Inr lr, Inr oc, Inr appDir, Inr files) \<Rightarrow>
          truthy (stdout appDir) \<and> \<not> js_includes (stdout appDir) (js ''no app dir yet'')
          \<and> has_markers files
      | _ \<Rightarrow> False)"

definition save_fails :: "server \<Rightarrow> bool" where
  "save_fails s = (case db s of None \<Rightarrow> False | Some f \<Rightarrow> fs_failing f)"

definition failing_firestore :: firestore where
  "failing_firestore =
     \<lparr>app_creation_jobs = Map.empty, user_shopify_apps = Map.empty, fs_failing = True,
      fs_clock = js ''2023-11-14T22:13:28.100Z''\<rparr>"

definition server_failing :: server where
  "server_failing = server_job\<lparr>db := Some failing_firestore\<rparr>"

definition obs_markers :: observation where
  "obs_markers =
     \<lparr>processCheck = Inr \<lparr>stdout = js ''node shopify app init'', stderr = []\<rparr>,
      logRead = Inr quiet,
      outputCheck = Inr \<lparr>stdout = js ''no app dir'', stderr = []\<rparr>,
      appDirCheck = Inr \<lparr>stdout = js ''drwxr-xr-x app -rw-r--r-- package.json'', stderr = []\<rparr>,
      filesCheck = Inr \<lparr>stdout = js ''drwxr-xr-x app -rw-r--r-- package.json'', stderr = []\<rparr>,
      authCheck = Inr quiet, at = clock1\<rparr>"

subsection \<open>A watched job, and a tick without markers\<close>






section \<open>JobOrchestrator: the two endpoints\<close>

text \<open>
  An HTTP response: the status code and the JSON body. A route handler's own
  \<open>try { ... } catch (error) { res.status(500)... }\<close> is \<open>try_handle\<close>: the handler
  itself does not throw.
\<close>

record response =
  status_code :: nat
  json :: "(string \<times> jsval) list"

definition try_handle :: "error + 'a \<Rightarrow> (error \<Rightarrow> 'a) \<Rightarrow> 'a" where
  "try_handle body handler = (case body of Inl e \<Rightarrow> handler e | Inr v \<Rightarrow> v)"

definition message_of :: "error \<Rightarrow> jsstring" where
  "message_of e = (case e of Error m \<Rightarrow> if truthy m then m else js ''Internal server error'')"

text \<open>
  \<open>const validPattern = /^[a-zA-Z0-9\s\-]+$/\<close>, tested on the trimmed name: the whole
  string is one or more characters of the class.
\<close>

definition name_char :: "nat \<Rightarrow> bool" where
  "name_char ch = ((97 \<le> ch \<and> ch \<le> 122) \<or> (65 \<le> ch \<and> ch \<le> 90) \<or> (48 \<le> ch \<and> ch \<le> 57)
     \<or> is_ws ch \<or> ch = 45)"

definition validPattern :: "jsstring \<Rightarrow> bool" where
  "validPattern t = (t \<noteq> [] \<and> list_all name_char t)"

definition name_required :: response where
  "name_required = \<lparr>status_code = 400,
     json = [(''error'', Str (js ''App name is required'')),
             (''message'', Str (js ''Please provide a valid app name''))]\<rparr>"

definition invalid_name :: response where
  "invalid_name = \<lparr>status_code = 400,
     json = [(''error'', Str (js ''Invalid app name'')),
             (''message'', Str (js ''App name can only contain letters, numbers, spaces, and dashes''))]\<rparr>"

definition creation_started :: "jsstring \<Rightarrow> response" where
  "creation_started jobId = \<lparr>status_code = 200,
     json = [(''success'', Bool True), (''jobId'', Str jobId),
             (''message'', Str (js ''Shopify app creation started'')),
             (''estimatedTime'', Str (js ''5-15 minutes''))]\<rparr>"

text \<open>
  \<open>POST /api/create-shopify-app\<close>, for the authenticated user \<open>userId\<close> and the
  \<open>appName\<close> of the request body (\<open>Undefined\<close> when the body has none). A truthy value
  that is not a string has no \<open>trim\<close>: the call throws a TypeError. After the job is
  created the handler starts the background process without awaiting it and responds;
  the model ends with the response.
\<close>

definition create_shopify_app :: "server \<Rightarrow> clock \<Rightarrow> jsstring \<Rightarrow> jsval \<Rightarrow> response \<times> server" where
  "create_shopify_app s c userId appName =
     try_handle
       (if \<not> truthy_val appName then Inr (name_required, s)
        else
          (case appName of
             Str nm \<Rightarrow>
               if \<not> truthy (js_trim nm) then Inr (name_required, s)
               else if \<not> validPattern (js_trim nm) then Inr (invalid_name, s)
               else
                 (case createAppCreationJob s c userId (js_trim nm) of
                    Inl e \<Rightarrow> Inl e
                  | Inr (jobId, s') \<Rightarrow> Inr (creation_started jobId, s'))
           | _ \<Rightarrow> Inl (Error (js ''appName.trim is not a function''))))
       (\<lambda>error. (\<lparr>status_code = 500,
                   json = [(''error'', Str (js ''Failed to start app creation'')),
                           (''message'', Str (message_of error))]\<rparr>, s))"

definition not_found :: response where
  "not_found = \<lparr>status_code = 404,
     json = [(''error'', Str (js ''Job not found'')),
             (''message'', Str (js ''The requested job does not exist''))]\<rparr>"

definition access_denied :: response where
  "access_denied = \<lparr>status_code = 403,
     json = [(''error'', Str (js ''Access denied'')),
             (''message'', Str (js ''You do not have access to this job''))]\<rparr>"

definition status_view :: "jsobj \<Rightarrow> response" where
  "status_view jobData = \<lparr>status_code = 200,
     json = [(''success'', Bool True), (''jobId'', get_field jobData ''jobId''),
             (''status'', get_field jobData ''status''), (''stage'', get_field jobData ''stage''),
             (''output'', if truthy_val (get_field jobData ''output'')
                          then get_field jobData ''output'' else Lines []),
             (''authUrl'', get_field jobData ''authUrl''), (''error'', get_field jobData ''error''),
             (''appData'', get_field jobData ''appData''),
             (''createdAt'', get_field jobData ''createdAt''),
             (''updatedAt'', get_field jobData ''updatedAt'')]\<rparr>"

text \<open>\<open>GET /api/app-creation-status/:jobId\<close> for the authenticated user \<open>userId\<close>.\<close>

definition app_creation_status :: "server \<Rightarrow> jsstring \<Rightarrow> jsstring \<Rightarrow> response" where
  "app_creation_status s jobId userId =
     try_handle
       (case getAppCreationJob s jobId of
          Inl e \<Rightarrow> Inl e
        | Inr None \<Rightarrow> Inr not_found
        | Inr (Some jobData) \<Rightarrow>
            if get_field jobData ''userId'' \<noteq> Str userId then Inr access_denied
            else Inr (status_view jobData))
       (\<lambda>error. \<lparr>status_code = 500,
                  json = [(''error'', Str (js ''Failed to get status'')),
                          (''message'', Str (message_of error))]\<rparr>)"

subsection \<open>The allow-list of the specification\<close>

text \<open>The characters the specification allows: letters, digits, the space and the dash.\<close>

definition allowed_char :: "nat \<Rightarrow> bool" where
  "allowed_char ch = ((97 \<le> ch \<and> ch \<le> 122) \<or> (65 \<le> ch \<and> ch \<le> 90) \<or> (48 \<le> ch \<and> ch \<le> 57)
     \<or> ch = 32 \<or> ch = 45)"

text \<open>The record a job id leads to, in the in-memory map or in the Firestore collection.\<close>

definition job_created :: "server \<Rightarrow> jsstring \<Rightarrow> jsobj \<Rightarrow> bool" where
  "job_created s jobId job =
     (inMemoryJobs s jobId = Some job
      \<or> (case db s of None \<Rightarrow> False | Some f \<Rightarrow> app_creation_jobs f jobId = Some job))"

section \<open>CodeGenerationPipeline: extractCodeBlocks\<close>

text \<open>
  \<open>/```(?:javascript|js|json|html|css)?\s*(?:\/\/\s*(.+?))?[\r\n]([\s\S]*?)```/gi\<close>.
  The fence is three code units 96; \<open>.\<close> matches all but the line terminators.
\<close>

definition fence :: rx where
  "fence = Seq (Atom (ci 96)) (Seq (Atom (ci 96)) (Atom (ci 96)))"

definition dot :: "nat \<Rightarrow> bool" where
  "dot ch = (ch \<noteq> 10 \<and> ch \<noteq> 13 \<and> ch \<noteq> 8232 \<and> ch \<noteq> 8233)"

definition codeBlockRegex :: rx where
  "codeBlockRegex =
     Seq fence
    (Seq (Opt (Alt (lit ''javascript'') (Alt (lit ''js'') (Alt (lit ''json'')
            (Alt (lit ''html'') (lit ''css''))))))
    (Seq (Star (Atom is_ws))
    (Seq (Opt (Seq (lit ''//'') (Seq (Star (Atom is_ws)) (Cap 1 (LazyPlus (Atom dot))))))
    (Seq (Atom (\<lambda>ch. ch = 13 \<or> ch = 10))
    (Seq (Cap 2 (LazyStar (Atom (\<lambda>ch. True))))
         fence)))))"

text \<open>
  The loop \<open>while ((match = codeBlockRegex.exec(generatedCode)) !== null)\<close>: with the
  flag \<open>g\<close> each search starts where the last match ended. The result lists
  \<open>(match[1], match[2])\<close> of every match; it is \<open>None\<close> when a match is empty, since the
  loop then finds the same match for ever.
\<close>

fun exec_all :: "jsstring \<Rightarrow> (jsstring option \<times> jsstring option) list option" where
  "exec_all s =
     (case rx_search codeBlockRegex s of
        None \<Rightarrow> Some []
      | Some st \<Rightarrow>
          if length (fst st) < length s
          then map_option ((#) (snd st 1, snd st 2)) (exec_all (fst st))
          else None)"

text \<open>
  The object \<open>files\<close>: its own properties in insertion order. An assignment adds a
  property or replaces its value, but \<open>files['__proto__'] = content\<close> with a string
  runs the setter of \<open>Object.prototype\<close>, which ignores a value that is not an object:
  no property is added.
\<close>

type_synonym files = "(jsstring \<times> jsstring) list"

definition assign :: "files \<Rightarrow> jsstring \<Rightarrow> jsstring \<Rightarrow> files" where
  "assign fs filename content =
     (if filename = js ''__proto__'' then fs else AList.update filename content fs)"

text \<open>The file name inferred from the content of a block, given the files so far.\<close>

definition sniff :: "files \<Rightarrow> jsstring \<Rightarrow> jsstring" where
  "sniff fs content =
     (if js_includes content (js ''const express = require'') \<or> js_includes content (js ''app.listen'')
      then js ''server.js''
      else if js_includes content ([34] @ js ''name'' @ [34] @ js '':'')
           \<and> js_includes content ([34] @ js ''dependencies'' @ [34])
      then js ''package.json''
      else if js_includes content (js ''<!DOCTYPE html>'') \<or> js_includes content (js ''<html'')
      then js ''index.html''
      else if js_includes content (js ''body {'') \<or> js_includes content (js ''.'')
      then js ''styles.css''
      else js ''file_'' @ toString 10 (int (length fs)) @ js ''.js'')"

text \<open>
  The name a block gets: \<open>match[1] ? match[1].trim() : null\<close>, and the inferred name
  when that is \<open>null\<close> or empty.
\<close>

definition block_name :: "files \<Rightarrow> jsstring option \<times> jsstring option \<Rightarrow> jsstring" where
  "block_name fs m =
     (let filename = (case fst m of
                        None \<Rightarrow> None
                      | Some m1 \<Rightarrow> if truthy m1 then Some (js_trim m1) else None);
          content = js_trim (the (snd m))
      in case filename of
           None \<Rightarrow> sniff fs content
         | Some f \<Rightarrow> if truthy f then f else sniff fs content)"

definition block_step :: "files \<Rightarrow> jsstring option \<times> jsstring option \<Rightarrow> files" where
  "block_step fs m = assign fs (block_name fs m) (js_trim (the (snd m)))"

definition extractCodeBlocks :: "jsstring \<Rightarrow> files option" where
  "extractCodeBlocks generatedCode = map_option (foldl block_step []) (exec_all generatedCode)"

subsection \<open>Two texts\<close>

definition proto_text :: jsstring where
  "proto_text =
     [96, 96, 96] @ js ''js // __proto__'' @ [10] @ js ''first'' @ [10, 96, 96, 96, 10]
     @ [96, 96, 96] @ js ''js // __proto__'' @ [10] @ js ''second'' @ [10, 96, 96, 96]"

text \<open>With ordinary names the later of two blocks with one name is the one returned.\<close>

definition twice_text :: jsstring where
  "twice_text =
     [96, 96, 96] @ js ''js // a.js'' @ [10] @ js ''first'' @ [10, 96, 96, 96, 10]
     @ [96, 96, 96] @ js ''js // a.js'' @ [10] @ js ''second'' @ [10, 96, 96, 96]"

subsection \<open>The names of the blocks\<close>

text \<open>The names the blocks get, in order.\<close>

fun block_names :: "files \<Rightarrow> (jsstring option \<times> jsstring option) list \<Rightarrow> jsstring list" where
  "block_names fs [] = []"
| "block_names fs (m # ms) = block_name fs m # block_names (block_step fs m) ms"

section \<open>ProjectStore: saveProject\<close>

text \<open>
  The storage bucket at its interface: the objects by path, and the paths whose writes
  reject. The content type passed along with a write is not modelled; it plays no part
  in what \<open>saveProject\<close> returns. \<open>projectData\<close> is \<open>None\<close> when the caller passes
  \<open>null\<close> or \<open>undefined\<close>; its \<open>files\<close> likewise.
\<close>

record bucket =
  objects :: "jsstring \<rightharpoonup> jsval"
  write_fails :: "jsstring \<Rightarrow> bool"

record project_data =
  proj_name :: jsval
  proj_description :: jsval
  proj_prompt :: jsval
  proj_files :: "(jsstring \<times> jsval) list option"
  proj_previewUrl :: jsval
  proj_sandboxId :: jsval

record saved_project =
  projectId :: jsstring
  metadata :: "(string \<times> jsval) list"

definition file_save :: "bucket \<Rightarrow> jsstring \<Rightarrow> jsval \<Rightarrow> error + bucket" where
  "file_save b path content =
     (if write_fails b path then Inl (Error (js ''storage write failed''))
      else Inr (b\<lparr>objects := (objects b)(path \<mapsto> content)\<rparr>))"

text \<open>
  \<open>for (const [filename, content] of Object.entries(projectData.files))\<close>: the first
  write that rejects ends the loop; the files written before it stay.
\<close>

fun save_files :: "bucket \<Rightarrow> jsstring \<Rightarrow> (jsstring \<times> jsval) list \<Rightarrow> error option \<times> bucket" where
  "save_files b projectDir [] = (None, b)"
| "save_files b projectDir ((filename, content) # rest) =
     (case file_save b (projectDir @ js ''/'' @ filename) content of
        Inl e \<Rightarrow> (Some e, b)
      | Inr b' \<Rightarrow> save_files b' projectDir rest)"

definition or_else :: "jsval \<Rightarrow> jsval \<Rightarrow> jsval" where
  "or_else v d = (if truthy_val v then v else d)"

definition project_metadata :: "jsstring \<Rightarrow> jsstring \<Rightarrow> project_data \<Rightarrow> (string \<times> jsval) list" where
  "project_metadata pid now pd =
     [(''id'', Str pid),
      (''name'', or_else (proj_name pd) (Str (js ''Project '' @ pid))),
      (''description'', or_else (proj_description pd) (Str [])),
      (''prompt'', or_else (proj_prompt pd) (Str [])),
      (''createdAt'', Str now),
      (''previewUrl'', or_else (proj_previewUrl pd) Null),
      (''sandboxId'', or_else (proj_sandboxId pd) Null)]"

definition minimal :: "jsstring \<Rightarrow> saved_project" where
  "minimal pid = \<lparr>projectId = pid, metadata = [(''id'', Str pid)]\<rparr>"

text \<open>
  \<open>saveProject(userId, projectData)\<close> with the module's \<open>bucket\<close> (\<open>None\<close> when storage
  is not configured). \<open>c\<close> is the clock the \<open>try\<close> block reads, \<open>c'\<close> the clock its
  handler reads. The result is what the promise settles to, and the bucket afterwards.
\<close>

definition saveProject ::
  "bucket option \<Rightarrow> clock \<Rightarrow> clock \<Rightarrow> jsstring \<Rightarrow> project_data option
     \<Rightarrow> (error + saved_project) \<times> bucket option" where
  "saveProject bk c c' userId projectData =
     (let (body, bk') =
        (case bk of
           None \<Rightarrow> (Inr (minimal (generateProjectId c)), None)
         | Some b \<Rightarrow>
             (let pid = generateProjectId c;
                  projectDir = js ''users/'' @ userId @ js ''/projects/'' @ pid in
              case projectData of
                None \<Rightarrow> (Inl (Error (js ''TypeError'')), Some b)
              | Some pd \<Rightarrow>
                  (let md = project_metadata pid (iso_now c) pd in
                   case file_save b (projectDir @ js ''/project.json'') (Obj md) of
                     Inl e \<Rightarrow> (Inl e, Some b)
                   | Inr b1 \<Rightarrow>
                       (case proj_files pd of
                          None \<Rightarrow> (Inl (Error (js ''TypeError'')), Some b1)
                        | Some entries \<Rightarrow>
                            (case save_files b1 projectDir entries of
                               (Some e, b2) \<Rightarrow> (Inl e, Some b2)
                             | (None, b2) \<Rightarrow>
                                 (Inr \<lparr>projectId = pid, metadata = md\<rparr>, Some b2))))))
      in case body of
           Inr saved \<Rightarrow> (Inr saved, bk')
         | Inl error \<Rightarrow> (Inr (minimal (generateProjectId c')), bk'))"

subsection \<open>A bucket that rejects every write\<close>

definition broken_bucket :: bucket where
  "broken_bucket = \<lparr>objects = Map.empty, write_fails = (\<lambda>path. True)\<rparr>"

definition some_project :: project_data where
  "some_project =
     \<lparr>proj_name = Str (js ''demo-001''), proj_description = Str (js ''Generated from prompt''),
      proj_prompt = Str (js ''inventory tracker''),
      proj_files = Some [(js ''server.js'', Str (js ''const express = require'')),
                         (js ''package.json'', Str (js ''{}''))],
      proj_previewUrl = Null, proj_sandboxId = Str (js ''sbx1'')\<rparr>"

chapter \<open>Properties\<close>

section \<open>OutputSignalExtractor: extractAuthUrl and determineStage\<close>

subsection \<open>The documented scenario\<close>

lemma pattern1_no_match:
  "rx_search (phrase_pattern ''To create your app, visit:'')
     (js ''Please visit the following URL to authenticate: https://partners.shopify.com/abc123'')
   = None"
  by (simp add: rx_at_def phrase_pattern_def partners_url_def Plus_def lit_def ci_def canon_def)

lemma pattern2_match:
  "rx_at (phrase_pattern ''Please visit the following URL to authenticate:'')
     (js ''Please visit the following URL to authenticate: https://partners.shopify.com/abc123'')
   = Some ([], (\<lambda>_. None)(1 := Some (js ''https://partners.shopify.com/abc123'')))"
  by (simp add: rx_at_def phrase_pattern_def partners_url_def Plus_def lit_def ci_def canon_def
      is_ws_def non_space_def)

lemma scenario_stage:
  "determineStage
     (js ''Please visit the following URL to authenticate: https://partners.shopify.com/abc123'')
   = js ''waiting_auth''"
  by (simp add: determineStage_def toLowerCase_def lower_def)

text \<open>
  C6. For the text "Please visit the following URL to authenticate:
  https://partners.shopify.com/abc123", extractAuthUrl returns
  "https://partners.shopify.com/abc123" and determineStage returns "waiting_auth".
\<close>

theorem C6_documented_scenario:
  "extractAuthUrl
     (js ''Please visit the following URL to authenticate: https://partners.shopify.com/abc123'')
     = Some (js ''https://partners.shopify.com/abc123'')
   \<and> determineStage
     (js ''Please visit the following URL to authenticate: https://partners.shopify.com/abc123'')
     = js ''waiting_auth''"
proof -
  have "rx_search (phrase_pattern ''Please visit the following URL to authenticate:'')
     (js ''Please visit the following URL to authenticate: https://partners.shopify.com/abc123'')
     = Some ([], (\<lambda>_. None)(1 := Some (js ''https://partners.shopify.com/abc123'')))"
    using pattern2_match by simp
  then have "extractAuthUrl
     (js ''Please visit the following URL to authenticate: https://partners.shopify.com/abc123'')
     = Some (js ''https://partners.shopify.com/abc123'')"
    using pattern1_no_match by (simp add: extractAuthUrl_def patterns_def)
  then show ?thesis using scenario_stage by simp
qed

section \<open>JobStore\<close>

subsection \<open>Round trip through the in-memory fallback\<close>

lemma create_when_down:
  assumes "durable_down s"
  shows "createAppCreationJob s c userId appName =
    Inr (generateJobId c,
         s\<lparr>inMemoryJobs := (inMemoryJobs s)
            (generateJobId c \<mapsto> jobData0 (generateJobId c) userId appName (iso_now c))\<rparr>)"
  using assms
  by (auto simp: durable_down_def createAppCreationJob_def try_catch_def jobs_set_def Let_def
      split: option.splits)

lemma update_in_memory:
  assumes "inMemoryJobs s jobId = Some job"
  shows "updateAppCreationJob s c jobId updates =
    Inr (s\<lparr>inMemoryJobs := (inMemoryJobs s)(jobId \<mapsto> merge_job job updates (iso_now c))\<rparr>)"
  using assms by (simp add: updateAppCreationJob_def try_catch_def)

lemma update_returns: "\<exists>s'. updateAppCreationJob s c jobId updates = Inr s'"
  by (auto simp: updateAppCreationJob_def try_catch_def split: option.splits sum.splits)

lemma get_in_memory:
  assumes "inMemoryJobs s jobId = Some job"
  shows "getAppCreationJob s jobId = Inr (Some job)"
  using assms by (simp add: getAppCreationJob_def try_catch_def)

lemma get_returns: "\<exists>r. getAppCreationJob s jobId = Inr r"
  by (auto simp: getAppCreationJob_def try_catch_def split: option.splits sum.splits)

text \<open>
  C3. With the durable backend unavailable or failing, create stores the record in the
  in-memory map, update merges the new fields over it (and refreshes updatedAt), get
  returns the merged record; update returns normally in every state, for every job id.
\<close>

theorem C3_fallback_round_trip:
  assumes "durable_down s"
  shows "\<exists>jobId s1 s2.
      createAppCreationJob s c0 userId appName = Inr (jobId, s1)
    \<and> inMemoryJobs s1 jobId = Some (jobData0 jobId userId appName (iso_now c0))
    \<and> updateAppCreationJob s1 c1 jobId updates = Inr s2
    \<and> getAppCreationJob s2 jobId =
        Inr (Some (jobData0 jobId userId appName (iso_now c0) ++ updates(''updatedAt'' \<mapsto> Str (iso_now c1))))
    \<and> (\<forall>s' c' j u. \<exists>s''. updateAppCreationJob s' c' j u = Inr s'')"
proof -
  let ?j = "generateJobId c0"
  let ?d = "jobData0 ?j userId appName (iso_now c0)"
  let ?s1 = "s\<lparr>inMemoryJobs := (inMemoryJobs s)(?j \<mapsto> ?d)\<rparr>"
  let ?s2 = "?s1\<lparr>inMemoryJobs := (inMemoryJobs ?s1)(?j \<mapsto> merge_job ?d updates (iso_now c1))\<rparr>"
  have c: "createAppCreationJob s c0 userId appName = Inr (?j, ?s1)"
    using assms by (rule create_when_down)
  have m: "inMemoryJobs ?s1 ?j = Some ?d" by simp
  have u: "updateAppCreationJob ?s1 c1 ?j updates = Inr ?s2"
    using m by (rule update_in_memory)
  have "inMemoryJobs ?s2 ?j = Some (merge_job ?d updates (iso_now c1))" by simp
  then have g: "getAppCreationJob ?s2 ?j = Inr (Some (merge_job ?d updates (iso_now c1)))"
    by (rule get_in_memory)
  from c m u g update_returns show ?thesis
    unfolding merge_job_def by blast
qed

section \<open>SandboxProcessMonitor\<close>

subsection \<open>The authentication URL is assigned once\<close>

lemma no_url_iff: "auth_inv m \<Longrightarrow> no_url (authUrl m) = (authUrl m = None)"
  by (auto simp: auth_inv_def no_url_def split: option.splits)















lemma update_in_memory_state:
  assumes "inMemoryJobs s jobId = Some job" and "updateAppCreationJob s c jobId p = Inr s'"
  shows "inMemoryJobs s' jobId = Some (merge_job job p (iso_now c))"
  using assms update_in_memory[OF assms(1), of c p] by auto













subsection \<open>Concrete runs\<close>

theorem C3_fallback_round_trip_witness:
  "durable_down server_down \<and>
   (\<exists>jobId s1 s2.
      createAppCreationJob server_down clock0 (js ''user_1'') (js ''My App'') = Inr (jobId, s1)
    \<and> inMemoryJobs s1 jobId = Some (jobData0 jobId (js ''user_1'') (js ''My App'') (iso_now clock0))
    \<and> updateAppCreationJob s1 clock1 jobId [''stage'' \<mapsto> Str (js ''creating'')] = Inr s2
    \<and> getAppCreationJob s2 jobId =
        Inr (Some (jobData0 jobId (js ''user_1'') (js ''My App'') (iso_now clock0)
           ++ [''stage'' \<mapsto> Str (js ''creating''), ''updatedAt'' \<mapsto> Str (iso_now clock1)])))"
proof -
  have d: "durable_down server_down" by (simp add: durable_down_def server_down_def)
  from C3_fallback_round_trip[OF d, of clock0 "js ''user_1''" "js ''My App''" clock1
      "[''stage'' \<mapsto> Str (js ''creating'')]"]
  show ?thesis using d by blast
qed




subsection \<open>The output buffer only grows, by lines that are new\<close>























subsection \<open>Completion markers\<close>

lemma read_log_complete: "isProcessComplete (fst (read_log m r)) = isProcessComplete m"
  by (auto simp: read_log_def Let_def split: option.splits)

lemma gather_markers:
  assumes "markers_found obs"
  shows "isProcessComplete (fst (gather m b obs))"
proof -
  from assms obtain lr oc appDir files where o: "logRead obs = Inr lr" "outputCheck obs = Inr oc"
    "appDirCheck obs = Inr appDir" "filesCheck obs = Inr files"
    and t: "truthy (stdout appDir)" "\<not> js_includes (stdout appDir) (js ''no app dir yet'')"
    "has_markers files"
    by (auto simp: markers_found_def split: sum.splits)
  obtain m1 new where r: "read_log m lr = (m1, new)" by (cases "read_log m lr")
  have "probe m1 b obs = Inr (m1\<lparr>isProcessComplete := True\<rparr>)"
    using o t by (simp add: probe_def)
  then show ?thesis using o r by (simp add: gather_def)
qed

lemma save_outcome:
  "(save_fails s \<longrightarrow> saveShopifyAppMetadata s c userId a = Inl (Error (js ''Failed to save app metadata'')))
   \<and> (\<not> save_fails s \<longrightarrow> (\<exists>v s'. saveShopifyAppMetadata s c userId a = Inr (v, s')
          \<and> inMemoryJobs s' = inMemoryJobs s \<and> activeJobs s' = activeJobs s))"
  by (auto simp: save_fails_def saveShopifyAppMetadata_def try_catch_def apps_set_def Let_def
      split: option.splits)

lemma conclude_complete:
  assumes "isProcessComplete m" and "conclude jobId userId appName c b s m = (s', m', p)"
  shows "\<not> pollInterval m' \<and> activeJobs s' jobId = None \<and> inMemoryJobs s' = inMemoryJobs s
       \<and> p ''output'' = Some (Lines (outputBuffer m @ success_lines))
       \<and> (if save_fails s then p ''stage'' = None \<and> p ''status'' = None
           else p ''stage'' = Some (Str (js ''completed'')) \<and> p ''status'' = Some (Str (js ''completed'')))"
proof (cases "save_fails s")
  case True
  then have "saveShopifyAppMetadata s c userId
       \<lparr>name = appName, cliPath = js ''/tmp/'' @ appName, projectPath = js ''/tmp/'' @ appName,
        authCompleted = (\<not> isWaitingForAuth m \<or> authUrl m \<noteq> None)\<rparr>
     = Inl (Error (js ''Failed to save app metadata''))"
    using save_outcome by blast
  then show ?thesis using assms True by (auto simp: conclude_def Let_def)
next
  case False
  then obtain v s1 where "saveShopifyAppMetadata s c userId
       \<lparr>name = appName, cliPath = js ''/tmp/'' @ appName, projectPath = js ''/tmp/'' @ appName,
        authCompleted = (\<not> isWaitingForAuth m \<or> authUrl m \<noteq> None)\<rparr> = Inr (v, s1)"
    and "inMemoryJobs s1 = inMemoryJobs s"
    using save_outcome by blast
  then show ?thesis using assms False by (auto simp: conclude_def Let_def)
qed

lemma update_frame:
  assumes "updateAppCreationJob s c jobId p = Inr s'"
  shows "activeJobs s' = activeJobs s"
  using assms
  by (auto simp: updateAppCreationJob_def try_catch_def split: option.splits sum.splits if_splits)

lemma merged_field:
  "k \<noteq> ''updatedAt'' \<Longrightarrow>
   get_field (merge_job job p now) k = (case p k of None \<Rightarrow> get_field job k | Some v \<Rightarrow> v)"
  by (simp add: merge_job_def get_field_def map_add_def split: option.splits)

text \<open>A tick that finds the markers: what it writes, with and without a failing save.\<close>

lemma tick_markers:
  assumes "activeJobs s jobId \<noteq> None" and "\<not> isProcessComplete m"
    and "processCheck obs = Inr pc" and "markers_found obs"
    and "tick jobId userId appName obs (s, m) = (s', m', us)"
  shows "\<exists>p. us = [p] \<and> \<not> pollInterval m' \<and> activeJobs s' jobId = None
       \<and> (if save_fails s then p ''stage'' = None \<and> p ''status'' = None
           else p ''stage'' = Some (Str (js ''completed'')) \<and> p ''status'' = Some (Str (js ''completed'')))
       \<and> (\<forall>job. inMemoryJobs s jobId = Some job \<longrightarrow>
             inMemoryJobs s' jobId = Some (merge_job job p (iso_now (at obs))))"
proof -
  let ?b = "truthy (stdout pc) \<and> js_includes (stdout pc) (js ''shopify'')"
  obtain m1 new where g: "gather m ?b obs = (m1, new)" by (cases "gather m ?b obs")
  let ?m2 = "m1\<lparr>outputBuffer := outputBuffer m1 @ new\<rparr>"
  have c2: "isProcessComplete ?m2" using gather_markers[OF assms(4), of m ?b] g by simp
  obtain s3 m3 p where c: "conclude jobId userId appName (at obs) ?b s ?m2 = (s3, m3, p)"
    by (cases "conclude jobId userId appName (at obs) ?b s ?m2")
  from conclude_complete[OF c2 c]
  have np: "\<not> pollInterval m3" and a3: "activeJobs s3 jobId = None"
    and mem3: "inMemoryJobs s3 = inMemoryJobs s"
    and pl: "if save_fails s then p ''stage'' = None \<and> p ''status'' = None
           else p ''stage'' = Some (Str (js ''completed'')) \<and> p ''status'' = Some (Str (js ''completed''))"
    by simp_all
  obtain s4 where u: "updateAppCreationJob s3 (at obs) jobId p = Inr s4"
    using update_returns by blast
  have e: "s' = s4 \<and> m' = m3 \<and> us = [p]"
    using assms(1,2,3,5) g c u by (auto simp: tick_def Let_def)
  have a4: "activeJobs s4 jobId = None" using update_frame[OF u] a3 by simp
  have rec: "\<forall>job. inMemoryJobs s jobId = Some job \<longrightarrow>
       inMemoryJobs s4 jobId = Some (merge_job job p (iso_now (at obs)))"
    using update_in_memory_state[OF _ u] mem3 by simp
  show ?thesis using e np a4 pl rec by simp
qed

lemma obs_markers_found: "markers_found obs_markers"
  by (simp add: markers_found_def obs_markers_def has_markers_def truthy_def)

text \<open>
  C1, at the input where it fails. Firestore is configured and rejects the write of the
  app metadata; the job's record is in the in-memory store. The tick finds the project
  directory with \<open>package.json\<close> and \<open>app\<close>, yet the update it writes has
  neither stage nor status: the record keeps status "running", while the job leaves the
  active table and the interval timer is cleared.
\<close>

theorem C1_markers_with_failing_save:
  "markers_found obs_markers
   \<and> (\<exists>s' m' p.
        tick (js ''job_1'') (js ''user_1'') (js ''My App'') obs_markers
          (server_failing, monitor0 (js ''My App'')) = (s', m', [p])
      \<and> p ''stage'' = None \<and> p ''status'' = None
      \<and> \<not> pollInterval m' \<and> activeJobs s' (js ''job_1'') = None
      \<and> (\<exists>job. inMemoryJobs s' (js ''job_1'') = Some job
            \<and> get_field job ''status'' = Str (js ''running'')
            \<and> get_field job ''stage'' = Str (js ''initializing'')))"
proof -
  let ?T = "tick (js ''job_1'') (js ''user_1'') (js ''My App'') obs_markers
          (server_failing, monitor0 (js ''My App''))"
  let ?job = "jobData0 (js ''job_1'') (js ''user_1'') (js ''My App'') (iso_now clock0)"
  have act: "activeJobs server_failing (js ''job_1'') \<noteq> None"
    by (simp add: server_failing_def server_job_def)
  have nc: "\<not> isProcessComplete (monitor0 (js ''My App''))" by (simp add: monitor0_def)
  have pc: "processCheck obs_markers = Inr \<lparr>stdout = js ''node shopify app init'', stderr = []\<rparr>"
    by (simp add: obs_markers_def)
  have sf: "save_fails server_failing"
    by (simp add: save_fails_def server_failing_def failing_firestore_def)
  have mem: "inMemoryJobs server_failing (js ''job_1'') = Some ?job"
    by (simp add: server_failing_def server_job_def)
  have eT: "?T = (fst ?T, fst (snd ?T), snd (snd ?T))" by simp
  from tick_markers[OF act nc pc obs_markers_found eT] sf mem
  obtain p where us: "snd (snd ?T) = [p]" and np: "\<not> pollInterval (fst (snd ?T))"
    and na: "activeJobs (fst ?T) (js ''job_1'') = None"
    and ps: "p ''stage'' = None" "p ''status'' = None"
    and rec: "inMemoryJobs (fst ?T) (js ''job_1'') = Some (merge_job ?job p (iso_now (at obs_markers)))"
    by auto
  have T: "?T = (fst ?T, fst (snd ?T), [p])" using us by (simp add: prod_eq_iff)
  have f1: "get_field (merge_job ?job p (iso_now (at obs_markers))) ''status'' = Str (js ''running'')"
    using ps by (simp add: merged_field) (simp add: get_field_def jobData0_def)
  have f2: "get_field (merge_job ?job p (iso_now (at obs_markers))) ''stage'' = Str (js ''initializing'')"
    using ps by (simp add: merged_field) (simp add: get_field_def jobData0_def)
  show ?thesis using obs_markers_found T ps np na rec f1 f2 by blast
qed

text \<open>When the save does not throw, the tick marks the job completed.\<close>

lemma tick_markers_completed:
  assumes "activeJobs s jobId \<noteq> None" and "\<not> isProcessComplete m"
    and "processCheck obs = Inr pc" and "markers_found obs" and "\<not> save_fails s"
    and "inMemoryJobs s jobId = Some job"
    and "tick jobId userId appName obs (s, m) = (s', m', us)"
  shows "\<exists>job'. inMemoryJobs s' jobId = Some job'
       \<and> get_field job' ''status'' = Str (js ''completed'')
       \<and> get_field job' ''stage'' = Str (js ''completed'')"
proof -
  from tick_markers[OF assms(1-4) assms(7)] assms(5,6)
  obtain p where ps: "p ''stage'' = Some (Str (js ''completed''))" "p ''status'' = Some (Str (js ''completed''))"
    and rec: "inMemoryJobs s' jobId = Some (merge_job job p (iso_now (at obs)))"
    by auto
  show ?thesis using rec ps by (simp add: merged_field)
qed

subsection \<open>The 25 minute ceiling\<close>















section \<open>JobOrchestrator: the two endpoints\<close>

subsection \<open>Validation of the application name\<close>

lemma allowed_name_char: "allowed_char ch \<Longrightarrow> name_char ch"
  by (auto simp: allowed_char_def name_char_def is_ws_def)

lemma js_trim_subset: "set (js_trim t) \<subseteq> set t"
  unfolding js_trim_def by (metis set_rev set_dropWhileD subsetI)

lemma js_trim_keeps:
  assumes "ch \<in> set t" and "\<not> is_ws ch"
  shows "ch \<in> set (js_trim t)"
proof -
  have a: "ch \<in> set (dropWhile is_ws u)" if "ch \<in> set u" for u
    using that assms(2) by (induction u) auto
  have "ch \<in> set (dropWhile is_ws t)" using a assms(1) by blast
  then have "ch \<in> set (rev (dropWhile is_ws t))" by simp
  then have "ch \<in> set (dropWhile is_ws (rev (dropWhile is_ws t)))" using a by blast
  then show ?thesis by (simp add: js_trim_def)
qed

lemma jobData0_fields:
  "get_field (jobData0 jobId userId appName now) ''userId'' = Str userId"
  "get_field (jobData0 jobId userId appName now) ''appName'' = Str appName"
  "get_field (jobData0 jobId userId appName now) ''status'' = Str (js ''running'')"
  "get_field (jobData0 jobId userId appName now) ''stage'' = Str (js ''initializing'')"
  "get_field (jobData0 jobId userId appName now) ''authUrl'' = Null"
  by (simp_all add: get_field_def jobData0_def)

lemma stamped_fields:
  "get_field (stamp t ((jobData0 jobId userId appName now)
      (''createdAt'' \<mapsto> ServerTs, ''updatedAt'' \<mapsto> ServerTs))) ''userId'' = Str userId"
  "get_field (stamp t ((jobData0 jobId userId appName now)
      (''createdAt'' \<mapsto> ServerTs, ''updatedAt'' \<mapsto> ServerTs))) ''appName'' = Str appName"
  "get_field (stamp t ((jobData0 jobId userId appName now)
      (''createdAt'' \<mapsto> ServerTs, ''updatedAt'' \<mapsto> ServerTs))) ''status'' = Str (js ''running'')"
  "get_field (stamp t ((jobData0 jobId userId appName now)
      (''createdAt'' \<mapsto> ServerTs, ''updatedAt'' \<mapsto> ServerTs))) ''stage'' = Str (js ''initializing'')"
  by (simp_all add: get_field_def jobData0_def stamp_def)

lemma create_creates:
  "\<exists>jobId s' job. createAppCreationJob s c userId appName = Inr (jobId, s')
     \<and> job_created s' jobId job
     \<and> get_field job ''userId'' = Str userId \<and> get_field job ''appName'' = Str appName
     \<and> get_field job ''status'' = Str (js ''running'')
     \<and> get_field job ''stage'' = Str (js ''initializing'')"
proof (cases "durable_down s")
  case True
  let ?j = "generateJobId c"
  let ?d = "jobData0 ?j userId appName (iso_now c)"
  let ?s1 = "s\<lparr>inMemoryJobs := (inMemoryJobs s)(?j \<mapsto> ?d)\<rparr>"
  have c: "createAppCreationJob s c userId appName = Inr (?j, ?s1)"
    using True by (rule create_when_down)
  have jc: "job_created ?s1 ?j ?d" by (simp add: job_created_def)
  show ?thesis using c jc jobData0_fields(1-4)[of ?j userId appName "iso_now c"] by blast
next
  case False
  then obtain f where f: "db s = Some f" "\<not> fs_failing f"
    by (auto simp: durable_down_def split: option.splits)
  let ?j = "generateJobId c"
  let ?d = "stamp (fs_clock f) ((jobData0 ?j userId appName (iso_now c))
      (''createdAt'' \<mapsto> ServerTs, ''updatedAt'' \<mapsto> ServerTs))"
  let ?s1 = "s\<lparr>db := Some (f\<lparr>app_creation_jobs := (app_creation_jobs f)(?j \<mapsto> ?d)\<rparr>)\<rparr>"
  have c: "createAppCreationJob s c userId appName = Inr (?j, ?s1)"
    using f by (simp add: createAppCreationJob_def try_catch_def jobs_set_def Let_def)
  have jc: "job_created ?s1 ?j ?d" by (simp add: job_created_def)
  show ?thesis
    using c jc stamped_fields[of "fs_clock f" ?j userId appName "iso_now c"] by blast
qed

text \<open>
  C4, as amended. A name with a character that is neither a letter, a digit, a dash nor
  white space is rejected with the validation error "Invalid app name", and the state of
  the server is unchanged: no record is created. A name whose trimmed form is non-empty
  and made of letters, digits, spaces and dashes is accepted, and a record for the trimmed
  name is created, in the in-memory map or in Firestore.
\<close>

theorem C4_name_validation:
  "((\<exists>ch \<in> set appName. \<not> name_char ch) \<longrightarrow>
      create_shopify_app s c userId (Str appName) = (invalid_name, s))
   \<and> (js_trim appName \<noteq> [] \<and> list_all allowed_char (js_trim appName) \<longrightarrow>
        (\<exists>jobId s' job. create_shopify_app s c userId (Str appName) = (creation_started jobId, s')
           \<and> job_created s' jobId job
           \<and> get_field job ''userId'' = Str userId
           \<and> get_field job ''appName'' = Str (js_trim appName)
           \<and> get_field job ''status'' = Str (js ''running'')
           \<and> get_field job ''stage'' = Str (js ''initializing'')))"
proof (intro conjI impI)
  assume "\<exists>ch \<in> set appName. \<not> name_char ch"
  then obtain ch where ch: "ch \<in> set appName" "\<not> name_char ch" by blast
  then have "\<not> is_ws ch" by (auto simp: name_char_def)
  then have in_trim: "ch \<in> set (js_trim appName)" using ch(1) js_trim_keeps by blast
  then have ne: "js_trim appName \<noteq> []" by auto
  then have ne0: "appName \<noteq> []" by (auto simp: js_trim_def)
  have "\<not> validPattern (js_trim appName)"
    using in_trim ch(2) by (auto simp: validPattern_def list_all_iff)
  then show "create_shopify_app s c userId (Str appName) = (invalid_name, s)"
    using ne ne0 by (simp add: create_shopify_app_def try_handle_def truthy_def)
next
  assume a: "js_trim appName \<noteq> [] \<and> list_all allowed_char (js_trim appName)"
  then have ne0: "appName \<noteq> []" by (auto simp: js_trim_def)
  have v: "validPattern (js_trim appName)"
    using a allowed_name_char by (auto simp: validPattern_def list_all_iff)
  from create_creates[of s c userId "js_trim appName"]
  obtain jobId s' job where c: "createAppCreationJob s c userId (js_trim appName) = Inr (jobId, s')"
    and j: "job_created s' jobId job" "get_field job ''userId'' = Str userId"
      "get_field job ''appName'' = Str (js_trim appName)"
      "get_field job ''status'' = Str (js ''running'')"
      "get_field job ''stage'' = Str (js ''initializing'')"
    by blast
  have "create_shopify_app s c userId (Str appName) = (creation_started jobId, s')"
    using a ne0 v c by (simp add: create_shopify_app_def try_handle_def truthy_def)
  then show "\<exists>jobId s' job. create_shopify_app s c userId (Str appName) = (creation_started jobId, s')
           \<and> job_created s' jobId job
           \<and> get_field job ''userId'' = Str userId
           \<and> get_field job ''appName'' = Str (js_trim appName)
           \<and> get_field job ''status'' = Str (js ''running'')
           \<and> get_field job ''stage'' = Str (js ''initializing'')"
    using j by blast
qed

text \<open>
  C4, as stated, fails in both directions. A name with a tab inside has a character
  outside letters, digits, space and dash, yet it is accepted and its record is created:
  the class of the pattern is \<open>\s\<close>, any white space. The name of one space is
  non-empty and within the allow-list, yet it is rejected: the name is trimmed first.
\<close>

theorem C4_name_validation_counterexample:
  "\<not> allowed_char 9
   \<and> create_shopify_app server_down clock0 (js ''user_1'') (Str [97, 9, 98])
       = (creation_started (generateJobId clock0),
          server_down\<lparr>inMemoryJobs := (inMemoryJobs server_down)(generateJobId clock0 \<mapsto>
             jobData0 (generateJobId clock0) (js ''user_1'') [97, 9, 98] (iso_now clock0))\<rparr>)
   \<and> js '' '' \<noteq> [] \<and> list_all allowed_char (js '' '')
   \<and> create_shopify_app server_down clock0 (js ''user_1'') (Str (js '' '')) = (name_required, server_down)"
proof -
  have d: "durable_down server_down" by (simp add: durable_down_def server_down_def)
  have t: "js_trim [97, 9, 98] = [97, 9, 98]" by (simp add: js_trim_def is_ws_def)
  have v: "validPattern [97, 9, 98]" by (simp add: validPattern_def name_char_def is_ws_def)
  have a: "create_shopify_app server_down clock0 (js ''user_1'') (Str [97, 9, 98])
       = (creation_started (generateJobId clock0),
          server_down\<lparr>inMemoryJobs := (inMemoryJobs server_down)(generateJobId clock0 \<mapsto>
             jobData0 (generateJobId clock0) (js ''user_1'') [97, 9, 98] (iso_now clock0))\<rparr>)"
    using v by (simp add: create_shopify_app_def try_handle_def truthy_def t create_when_down[OF d])
  have b: "create_shopify_app server_down clock0 (js ''user_1'') (Str (js '' '')) = (name_required, server_down)"
    by (simp add: create_shopify_app_def try_handle_def truthy_def js_trim_def is_ws_def)
  have c: "\<not> allowed_char 9" "js '' '' \<noteq> []" "list_all allowed_char (js '' '')"
    by (simp_all add: allowed_char_def)
  show ?thesis using a b c by blast
qed

theorem C4_name_validation_witness:
  "(\<exists>ch \<in> set (js ''my_app!''). \<not> name_char ch)
   \<and> create_shopify_app server_down clock0 (js ''user_1'') (Str (js ''my_app!'')) = (invalid_name, server_down)
   \<and> js_trim (js '' My App-2 '') = js ''My App-2''
   \<and> list_all allowed_char (js ''My App-2'')
   \<and> (\<exists>jobId s' job.
         create_shopify_app server_down clock0 (js ''user_1'') (Str (js '' My App-2 ''))
           = (creation_started jobId, s')
       \<and> job_created s' jobId job
       \<and> get_field job ''userId'' = Str (js ''user_1'')
       \<and> get_field job ''appName'' = Str (js ''My App-2'')
       \<and> get_field job ''status'' = Str (js ''running'')
       \<and> get_field job ''stage'' = Str (js ''initializing''))"
proof -
  have bad: "\<exists>ch \<in> set (js ''my_app!''). \<not> name_char ch"
    by (simp add: name_char_def is_ws_def)
  have t: "js_trim (js '' My App-2 '') = js ''My App-2''" by (simp add: js_trim_def is_ws_def)
  have ok: "list_all allowed_char (js ''My App-2'')" by (simp add: allowed_char_def)
  have pre: "js_trim (js '' My App-2 '') \<noteq> [] \<and> list_all allowed_char (js_trim (js '' My App-2 ''))"
    unfolding t using ok by simp
  note first = C4_name_validation[of "js ''my_app!''" server_down clock0 "js ''user_1''",
      THEN conjunct1, rule_format, OF bad]
  note second = C4_name_validation[of "js '' My App-2 ''" server_down clock0 "js ''user_1''",
      THEN conjunct2, rule_format, OF pre]
  show ?thesis using bad first t ok second[unfolded t] by (intro conjI)
qed

subsection \<open>Status requests\<close>

text \<open>
  C7, as amended. For every job id and requesting user: when no record is found the
  response is the 404 "Job not found"; when the record's userId differs from the
  requesting user the response is the 403 "Access denied", a fixed response that holds
  nothing of the record; when they agree it is the view of the record. The two refusals
  differ.
\<close>

theorem C7_status_signals:
  "(getAppCreationJob s jobId = Inr None \<longrightarrow> app_creation_status s jobId userId = not_found)
   \<and> (\<forall>job. getAppCreationJob s jobId = Inr (Some job) \<and> get_field job ''userId'' \<noteq> Str userId
         \<longrightarrow> app_creation_status s jobId userId = access_denied)
   \<and> (\<forall>job. getAppCreationJob s jobId = Inr (Some job) \<and> get_field job ''userId'' = Str userId
         \<longrightarrow> app_creation_status s jobId userId = status_view job)
   \<and> (\<exists>r. getAppCreationJob s jobId = Inr r)
   \<and> status_code not_found = 404 \<and> status_code access_denied = 403
   \<and> not_found \<noteq> access_denied"
proof -
  have "not_found \<noteq> access_denied"
  proof
    assume "not_found = access_denied"
    then have "status_code not_found = status_code access_denied" by simp
    then show False by (simp add: not_found_def access_denied_def)
  qed
  then show ?thesis
    using get_returns[of s jobId]
    by (auto simp: app_creation_status_def try_handle_def not_found_def access_denied_def)
qed

text \<open>
  C7, as stated, fails: to user_2, the job of user_1 answers 403 and a job that does not
  exist answers 404, so the two are told apart.
\<close>

theorem C7_status_signals_counterexample:
  "app_creation_status server_job (js ''job_1'') (js ''user_2'') = access_denied
   \<and> app_creation_status server_job (js ''job_2'') (js ''user_2'') = not_found
   \<and> app_creation_status server_job (js ''job_1'') (js ''user_2'')
       \<noteq> app_creation_status server_job (js ''job_2'') (js ''user_2'')"
proof -
  have g1: "getAppCreationJob server_job (js ''job_1'')
      = Inr (Some (jobData0 (js ''job_1'') (js ''user_1'') (js ''My App'') (iso_now clock0)))"
    by (rule get_in_memory) (simp add: server_job_def)
  have g2: "getAppCreationJob server_job (js ''job_2'') = Inr None"
    by (simp add: getAppCreationJob_def try_catch_def server_job_def)
  have a: "app_creation_status server_job (js ''job_1'') (js ''user_2'') = access_denied"
    using g1 by (simp add: app_creation_status_def try_handle_def jobData0_fields)
  have b: "app_creation_status server_job (js ''job_2'') (js ''user_2'') = not_found"
    using g2 by (simp add: app_creation_status_def try_handle_def)
  have "status_code access_denied \<noteq> status_code not_found"
    by (simp add: not_found_def access_denied_def)
  then have "access_denied \<noteq> not_found" by auto
  then show ?thesis using a b by simp
qed

theorem C7_status_signals_witness:
  "getAppCreationJob server_job (js ''job_2'') = Inr None
   \<and> app_creation_status server_job (js ''job_2'') (js ''user_2'') = not_found
   \<and> getAppCreationJob server_job (js ''job_1'')
       = Inr (Some (jobData0 (js ''job_1'') (js ''user_1'') (js ''My App'') (iso_now clock0)))
   \<and> get_field (jobData0 (js ''job_1'') (js ''user_1'') (js ''My App'') (iso_now clock0)) ''userId''
       \<noteq> Str (js ''user_2'')
   \<and> app_creation_status server_job (js ''job_1'') (js ''user_2'') = access_denied
   \<and> app_creation_status server_job (js ''job_1'') (js ''user_1'')
       = status_view (jobData0 (js ''job_1'') (js ''user_1'') (js ''My App'') (iso_now clock0))"
proof -
  let ?job = "jobData0 (js ''job_1'') (js ''user_1'') (js ''My App'') (iso_now clock0)"
  have g1: "getAppCreationJob server_job (js ''job_1'') = Inr (Some ?job)"
    by (rule get_in_memory) (simp add: server_job_def)
  have g2: "getAppCreationJob server_job (js ''job_2'') = Inr None"
    by (simp add: getAppCreationJob_def try_catch_def server_job_def)
  have other: "get_field ?job ''userId'' \<noteq> Str (js ''user_2'')" by (simp add: jobData0_fields)
  have own: "get_field ?job ''userId'' = Str (js ''user_1'')" by (simp add: jobData0_fields)
  note a = C7_status_signals[of server_job "js ''job_2''" "js ''user_2''", THEN conjunct1, rule_format, OF g2]
  note b = C7_status_signals[of server_job "js ''job_1''" "js ''user_2''",
      THEN conjunct2, THEN conjunct1, rule_format, OF conjI[OF g1 other]]
  note c = C7_status_signals[of server_job "js ''job_1''" "js ''user_1''",
      THEN conjunct2, THEN conjunct2, THEN conjunct1, rule_format, OF conjI[OF g1 own]]
  show ?thesis using g2 a g1 other b c by (intro conjI)
qed

section \<open>CodeGenerationPipeline: extractCodeBlocks\<close>

subsection \<open>Every block gets a name, and a later block replaces an earlier one\<close>

lemma digits_nonempty: "digits b n \<noteq> []"
  by (subst digits.simps) simp

lemma toString_nonempty: "toString b i \<noteq> []"
  by (simp add: toString_def digits_nonempty)

lemma sniff_nonempty: "sniff fs content \<noteq> []"
  by (simp add: sniff_def)

lemma block_name_nonempty: "block_name fs m \<noteq> []"
  by (auto simp: block_name_def Let_def truthy_def sniff_nonempty split: option.splits)

lemma block_step_named:
  "block_name fs m \<noteq> js ''__proto__'' \<Longrightarrow>
   map_of (block_step fs m) (block_name fs m) = Some (js_trim (the (snd m)))"
  by (simp add: block_step_def assign_def update_conv)

lemma block_step_others:
  "k \<noteq> block_name fs m \<Longrightarrow> map_of (block_step fs m) k = map_of fs k"
  by (simp add: block_step_def assign_def update_conv)

lemma block_step_proto: "map_of (block_step fs m) (js ''__proto__'') = map_of fs (js ''__proto__'')"
  by (simp add: block_step_def assign_def update_conv)

lemma proto_text_matches:
  "exec_all proto_text =
     Some [(Some (js ''__proto__''), Some (js ''first'' @ [10])),
           (Some (js ''__proto__''), Some (js ''second'' @ [10]))]"
  by (simp add: proto_text_def codeBlockRegex_def fence_def rx_at_def lit_def ci_def canon_def
      LazyPlus_def is_ws_def dot_def)

text \<open>
  C10, at the input where it fails: two fenced blocks, each with the name comment
  \<open>// __proto__\<close>. Both get the name \<open>__proto__\<close>, and the mapping returned holds
  neither the later content nor the earlier one: it is empty.
\<close>

theorem C10_proto_blocks_dropped:
  "exec_all proto_text =
     Some [(Some (js ''__proto__''), Some (js ''first'' @ [10])),
           (Some (js ''__proto__''), Some (js ''second'' @ [10]))]
   \<and> block_name [] (Some (js ''__proto__''), Some (js ''first'' @ [10])) = js ''__proto__''
   \<and> block_name [] (Some (js ''__proto__''), Some (js ''second'' @ [10])) = js ''__proto__''
   \<and> extractCodeBlocks proto_text = Some []"
proof -
  have n1: "block_name [] (Some (js ''__proto__''), Some (js ''first'' @ [10])) = js ''__proto__''"
    by (simp add: block_name_def truthy_def js_trim_def is_ws_def)
  have n2: "block_name [] (Some (js ''__proto__''), Some (js ''second'' @ [10])) = js ''__proto__''"
    by (simp add: block_name_def truthy_def js_trim_def is_ws_def)
  have s1: "block_step [] (Some (js ''__proto__''), Some (js ''first'' @ [10])) = []"
    unfolding block_step_def n1 by (simp add: assign_def)
  have s2: "block_step [] (Some (js ''__proto__''), Some (js ''second'' @ [10])) = []"
    unfolding block_step_def n2 by (simp add: assign_def)
  have "extractCodeBlocks proto_text = Some []"
    unfolding extractCodeBlocks_def proto_text_matches using s1 s2 by simp
  then show ?thesis using proto_text_matches n1 n2 by simp
qed

lemma twice_text_later_wins:
  "extractCodeBlocks twice_text = Some [(js ''a.js'', js ''second'')]"
proof -
  have m: "exec_all twice_text =
     Some [(Some (js ''a.js''), Some (js ''first'' @ [10])),
           (Some (js ''a.js''), Some (js ''second'' @ [10]))]"
    by (simp add: twice_text_def codeBlockRegex_def fence_def rx_at_def lit_def ci_def canon_def
        LazyPlus_def is_ws_def dot_def)
  show ?thesis
    unfolding extractCodeBlocks_def m
    by (simp add: block_step_def block_name_def assign_def truthy_def js_trim_def is_ws_def)
qed

subsection \<open>The search loop of extractCodeBlocks ends\<close>

lemma star_greedy_suffix:
  assumes "\<And>k st res. f k st = Some res \<Longrightarrow> \<exists>st'. k st' = Some res \<and> length (fst st') \<le> length (fst st)"
  shows "star_greedy f k n st = Some res \<Longrightarrow> \<exists>st'. k st' = Some res \<and> length (fst st') \<le> length (fst st)"
proof (induction n arbitrary: st)
  case 0
  then have "k st = Some res" by simp
  then show ?case by (intro exI[of _ st]) simp
next
  case (Suc n)
  let ?k = "\<lambda>st'. if length (fst st') < length (fst st) then star_greedy f k n st' else None"
  show ?case
  proof (cases "f ?k st")
    case None
    then have "k st = Some res" using Suc.prems by simp
    then show ?thesis by (intro exI[of _ st]) simp
  next
    case (Some r)
    then have "r = res" using Suc.prems by simp
    then obtain st1 where k1: "?k st1 = Some res" and l1: "length (fst st1) \<le> length (fst st)"
      using assms[of ?k st res] Some by auto
    then have "star_greedy f k n st1 = Some res" by (auto split: if_splits)
    from Suc.IH[OF this] obtain st' where "k st' = Some res" "length (fst st') \<le> length (fst st1)"
      by blast
    then show ?thesis using l1 by (meson le_trans)
  qed
qed

lemma star_lazy_suffix:
  assumes "\<And>k st res. f k st = Some res \<Longrightarrow> \<exists>st'. k st' = Some res \<and> length (fst st') \<le> length (fst st)"
  shows "star_lazy f k n st = Some res \<Longrightarrow> \<exists>st'. k st' = Some res \<and> length (fst st') \<le> length (fst st)"
proof (induction n arbitrary: st)
  case 0
  then have "k st = Some res" by simp
  then show ?case by (intro exI[of _ st]) simp
next
  case (Suc n)
  let ?k = "\<lambda>st'. if length (fst st') < length (fst st) then star_lazy f k n st' else None"
  show ?case
  proof (cases "k st")
    case (Some r)
    then have "k st = Some res" using Suc.prems by simp
    then show ?thesis by (intro exI[of _ st]) simp
  next
    case None
    then have "f ?k st = Some res" using Suc.prems by simp
    then obtain st1 where k1: "?k st1 = Some res" and l1: "length (fst st1) \<le> length (fst st)"
      using assms[of ?k st res] by auto
    then have "star_lazy f k n st1 = Some res" by (auto split: if_splits)
    from Suc.IH[OF this] obtain st' where "k st' = Some res" "length (fst st') \<le> length (fst st1)"
      by blast
    then show ?thesis using l1 by (meson le_trans)
  qed
qed

lemma rx_m_suffix:
  "rx_m r k st = Some res \<Longrightarrow> \<exists>st'. k st' = Some res \<and> length (fst st') \<le> length (fst st)"
proof (induction r arbitrary: k st res)
  case (Atom p)
  then show ?case by (cases st) (auto split: list.splits if_splits)
next
  case Eps
  then have "k st = Some res" by simp
  then show ?case by (intro exI[of _ st]) simp
next
  case (Seq a b)
  from Seq.prems have "rx_m a (rx_m b k) st = Some res" by simp
  from Seq.IH(1)[OF this] obtain st1 where "rx_m b k st1 = Some res" "length (fst st1) \<le> length (fst st)"
    by blast
  moreover from Seq.IH(2)[OF this(1)] obtain st' where "k st' = Some res" "length (fst st') \<le> length (fst st1)"
    by blast
  ultimately show ?case by (meson le_trans)
next
  case (Alt a b)
  show ?case
  proof (cases "rx_m a k st")
    case None
    then have "rx_m b k st = Some res" using Alt.prems by simp
    then show ?thesis by (rule Alt.IH(2))
  next
    case (Some r)
    then have "rx_m a k st = Some res" using Alt.prems by simp
    then show ?thesis by (rule Alt.IH(1))
  qed
next
  case (Opt a)
  show ?case
  proof (cases "rx_m a k st")
    case None
    then have "k st = Some res" using Opt.prems by simp
    then show ?thesis by (intro exI[of _ st]) simp
  next
    case (Some r)
    then have "rx_m a k st = Some res" using Opt.prems by simp
    then show ?thesis by (rule Opt.IH)
  qed
next
  case (Star a)
  from Star.prems have "star_greedy (rx_m a) k (length (fst st)) st = Some res" by simp
  then show ?case using star_greedy_suffix[of "rx_m a"] Star.IH by blast
next
  case (LazyStar a)
  from LazyStar.prems have "star_lazy (rx_m a) k (length (fst st)) st = Some res" by simp
  then show ?case using star_lazy_suffix[of "rx_m a"] LazyStar.IH by blast
next
  case (Cap i a)
  let ?k = "\<lambda>st'. k (fst st', (snd st')(i := Some (take (length (fst st) - length (fst st')) (fst st))))"
  from Cap.prems have "rx_m a ?k st = Some res" by simp
  from Cap.IH[OF this] obtain st1 where "?k st1 = Some res" "length (fst st1) \<le> length (fst st)"
    by blast
  then show ?case by (intro exI[of _ "(fst st1, (snd st1)(i := Some (take (length (fst st) - length (fst st1)) (fst st))))"]) simp
qed

lemma atom_step:
  "rx_m (Atom p) k st = Some res \<Longrightarrow> \<exists>x t. fst st = x # t \<and> k (t, snd st) = Some res"
  by (cases "fst st") (auto split: if_splits)

lemma codeBlockRegex_consumes:
  assumes "rx_at codeBlockRegex s = Some st"
  shows "length (fst st) < length s"
proof -
  obtain rest where r: "codeBlockRegex = Seq (Seq (Atom (ci 96)) (Seq (Atom (ci 96)) (Atom (ci 96)))) rest"
    by (simp add: codeBlockRegex_def fence_def)
  let ?k = "rx_m (Seq (Atom (ci 96)) (Atom (ci 96))) (rx_m rest Some)"
  have "rx_m codeBlockRegex Some = rx_m (Atom (ci 96)) ?k"
    unfolding r by (simp only: rx_m.simps)
  then have "rx_m (Atom (ci 96)) ?k (s, \<lambda>_. None) = Some st"
    using assms unfolding rx_at_def by simp
  from atom_step[OF this] obtain x t where s: "s = x # t" and k: "?k (t, \<lambda>_. None) = Some st"
    by auto
  from rx_m_suffix[OF k] obtain st1 where k1: "rx_m rest Some st1 = Some st"
    and l1: "length (fst st1) \<le> length t" by auto
  from rx_m_suffix[OF k1] obtain st2 where "Some st2 = Some st" and "length (fst st2) \<le> length (fst st1)"
    by auto
  then show ?thesis using s l1 by simp
qed

lemma rx_search_consumes:
  "rx_search codeBlockRegex s = Some st \<Longrightarrow> length (fst st) < length s"
proof (induction s)
  case Nil
  then show ?case using codeBlockRegex_consumes[of "[]" st] by simp
next
  case (Cons x t)
  show ?case
  proof (cases "rx_at codeBlockRegex (x # t)")
    case None
    then have "rx_search codeBlockRegex t = Some st" using Cons.prems by simp
    then show ?thesis using Cons.IH by fastforce
  next
    case (Some r)
    then have "r = st" using Cons.prems by simp
    then show ?thesis using Some codeBlockRegex_consumes by blast
  qed
qed

lemma exec_all_returns: "\<exists>ms. exec_all s = Some ms"
proof (induction s rule: length_induct)
  case (1 s)
  show ?case
  proof (cases "rx_search codeBlockRegex s")
    case None
    then show ?thesis by (subst exec_all.simps) simp
  next
    case (Some st)
    then have l: "length (fst st) < length s" by (rule rx_search_consumes)
    then obtain ms where "exec_all (fst st) = Some ms" using 1 by blast
    then show ?thesis using Some l by (subst exec_all.simps) simp
  qed
qed

lemma extractCodeBlocks_returns: "\<exists>fs. extractCodeBlocks generatedCode = Some fs"
  using exec_all_returns[of generatedCode] by (auto simp: extractCodeBlocks_def)

subsection \<open>The last block with a name is the one returned\<close>

lemma unnamed_unchanged:
  "k \<notin> set (block_names fs ms) \<Longrightarrow> map_of (foldl block_step fs ms) k = map_of fs k"
  by (induction ms arbitrary: fs) (simp_all add: block_step_others)

lemma last_named_block_wins:
  assumes "k = block_name fs m" and "k \<noteq> js ''__proto__''"
    and "k \<notin> set (block_names (block_step fs m) later)"
  shows "map_of (foldl block_step fs (m # later)) k = Some (js_trim (the (snd m)))"
  using assms unnamed_unchanged[OF assms(3)] block_step_named[of fs m] by simp

section \<open>ProjectStore: saveProject\<close>

subsection \<open>saveProject always returns a project id\<close>

lemma generateProjectId_nonempty: "generateProjectId c \<noteq> []"
  by (simp add: generateProjectId_def toString_nonempty)

text \<open>
  C9. For every user and project data \<open>saveProject\<close> returns (it never throws) an object
  with a non-empty projectId. Without a bucket, and when every write to the bucket
  fails, the id is a fresh one, the metadata hold only the id, and nothing is stored.
\<close>

theorem C9_save_project_returns:
  "(\<exists>saved bk'. saveProject bk c c' userId projectData = (Inr saved, bk') \<and> projectId saved \<noteq> [])
   \<and> (bk = None \<longrightarrow>
        saveProject bk c c' userId projectData = (Inr (minimal (generateProjectId c)), None))
   \<and> (\<forall>b. bk = Some b \<and> (\<forall>path. write_fails b path) \<longrightarrow>
        saveProject bk c c' userId projectData = (Inr (minimal (generateProjectId c')), Some b))"
proof (intro conjI allI impI)
  show "\<exists>saved bk'. saveProject bk c c' userId projectData = (Inr saved, bk') \<and> projectId saved \<noteq> []"
    by (auto simp: saveProject_def Let_def minimal_def generateProjectId_nonempty
        split: option.splits sum.splits prod.splits)
next
  assume "bk = None"
  then show "saveProject bk c c' userId projectData = (Inr (minimal (generateProjectId c)), None)"
    by (simp add: saveProject_def)
next
  fix b
  assume "bk = Some b \<and> (\<forall>path. write_fails b path)"
  then show "saveProject bk c c' userId projectData = (Inr (minimal (generateProjectId c')), Some b)"
    by (auto simp: saveProject_def Let_def file_save_def split: option.splits)
qed

theorem C9_save_project_returns_witness:
  "saveProject None clock0 clock1 (js ''user_1'') (Some some_project)
     = (Inr (minimal (generateProjectId clock0)), None)
   \<and> (\<forall>path. write_fails broken_bucket path)
   \<and> saveProject (Some broken_bucket) clock0 clock1 (js ''user_1'') (Some some_project)
     = (Inr (minimal (generateProjectId clock1)), Some broken_bucket)
   \<and> objects broken_bucket = Map.empty
   \<and> projectId (minimal (generateProjectId clock1)) \<noteq> []"
proof -
  have f: "\<forall>path. write_fails broken_bucket path" by (simp add: broken_bucket_def)
  note a = C9_save_project_returns[of None clock0 clock1 "js ''user_1''" "Some some_project",
      THEN conjunct2, THEN conjunct1, rule_format, OF refl]
  note b = C9_save_project_returns[of "Some broken_bucket" clock0 clock1 "js ''user_1''" "Some some_project",
      THEN conjunct2, THEN conjunct2, rule_format, OF conjI[OF refl f]]
  from C9_save_project_returns[of "Some broken_bucket" clock0 clock1 "js ''user_1''" "Some some_project",
      THEN conjunct1] b
  have c: "projectId (minimal (generateProjectId clock1)) \<noteq> []" by auto
  have d: "objects broken_bucket = Map.empty" by (simp add: broken_bucket_def)
  show ?thesis using a f b d c by (intro conjI)
qed

end
